theory Spec2Isabelle
  imports Main "HOL-Library.Word"
begin

unbundle bit_operations_syntax

section \<open>BIOS images: the region table (FMAP)\<close>

type_synonym u8 = "8 word"
type_synonym u16 = "16 word"
type_synonym u32 = "32 word"

text \<open>
  \<^verbatim>\<open>FmapAreaHeader\<close>: the fields of one FMAP area entry that the signing and
  showing code reads or writes. \<open>area_name\<close> is the C string held in the fixed-width
  name field (the characters before the first NUL, at most \<open>FMAP_NAMELEN\<close>).
\<close>

record FmapAreaHeader =
  area_offset :: u32
  area_size :: u32
  area_name :: string

definition FMAP_NAMELEN :: nat where
  "FMAP_NAMELEN = 32"

text \<open>
  The mapped file. \<open>fmap\<close> is the area table that \<^verbatim>\<open>fmap_find\<close> locates inside the
  buffer (\<open>None\<close> when the buffer holds no FMAP signature); the area headers are part
  of the buffer, so a store through an \<^verbatim>\<open>FmapAreaHeader *\<close> is a store into the buffer.
  \<open>bytes\<close> are the buffer's bytes. The table is kept apart from \<open>bytes\<close>: an area
  that covers the table itself is outside this model.
\<close>

record image =
  fmap :: "FmapAreaHeader list option"
  bytes :: "u8 list"

text \<open>\<^verbatim>\<open>fmap_limit_area\<close>: the 32-bit sum wraps; \<open>ah\<close> is returned updated.\<close>

definition fmap_limit_area :: "FmapAreaHeader \<Rightarrow> u32 \<Rightarrow> FmapAreaHeader" where
  "fmap_limit_area ah len =
     (let sum = area_offset ah + area_size ah
      in if sum < area_size ah \<or> sum > len
         then ah\<lparr>area_offset := 0, area_size := 0\<rparr>
         else ah)"

text \<open>
  Modelled from the spec: \<^verbatim>\<open>fmap_find_by_name\<close> (fmap.c) is not under src/. Spec 4.1:
  a linear lookup by fixed-width name, the names compared up to their declared width
  (\<^verbatim>\<open>strncmp\<close> with \<open>FMAP_NAMELEN\<close>); none when the buffer has no table or no area of
  that name. The result is the index of the area header in the table, standing for
  the pointer stored to \<^verbatim>\<open>*ah_ptr\<close>, with the header found there.
\<close>

definition strncmp_eq :: "string \<Rightarrow> string \<Rightarrow> nat \<Rightarrow> bool" where
  "strncmp_eq a b n = (take n a = take n b)"

fun find_area_index :: "FmapAreaHeader list \<Rightarrow> string \<Rightarrow> nat option" where
  "find_area_index [] name = None"
| "find_area_index (ah # ahs) name =
     (if strncmp_eq (area_name ah) name FMAP_NAMELEN then Some 0
      else map_option Suc (find_area_index ahs name))"

definition fmap_find_by_name :: "image \<Rightarrow> string \<Rightarrow> (nat \<times> FmapAreaHeader) option" where
  "fmap_find_by_name img name =
     (case fmap img of
        None \<Rightarrow> None
      | Some ahs \<Rightarrow> map_option (\<lambda>i. (i, ahs ! i)) (find_area_index ahs name))"

text \<open>The store \<^verbatim>\<open>*ah = v\<close> through the pointer that the lookup gave.\<close>

definition store_area_header :: "image \<Rightarrow> nat \<Rightarrow> FmapAreaHeader \<Rightarrow> image" where
  "store_area_header img i ah = img\<lparr>fmap := map_option (\<lambda>ahs. ahs[i := ah]) (fmap img)\<rparr>"

text \<open>
  \<^verbatim>\<open>enum bios_component\<close> and the table \<^verbatim>\<open>fmap_name[]\<close>. Their declarations are not
  under src/; the order is that of \<^verbatim>\<open>fmap_show_fn[]\<close> and the names are those of the
  comment in \<^verbatim>\<open>ft_recognize_bios_image\<close>.
\<close>

datatype bios_component =
  BIOS_FMAP_GBB | BIOS_FMAP_FW_MAIN_A | BIOS_FMAP_FW_MAIN_B
  | BIOS_FMAP_VBLOCK_A | BIOS_FMAP_VBLOCK_B

fun fmap_name :: "bios_component \<Rightarrow> string" where
  "fmap_name BIOS_FMAP_GBB = ''GBB''"
| "fmap_name BIOS_FMAP_FW_MAIN_A = ''FW_MAIN_A''"
| "fmap_name BIOS_FMAP_FW_MAIN_B = ''FW_MAIN_B''"
| "fmap_name BIOS_FMAP_VBLOCK_A = ''VBLOCK_A''"
| "fmap_name BIOS_FMAP_VBLOCK_B = ''VBLOCK_B''"

datatype futil_file_type = FILE_TYPE_UNKNOWN | FILE_TYPE_BIOS_IMAGE

text \<open>\<^verbatim>\<open>ft_recognize_bios_image\<close>.\<close>

definition ft_recognize_bios_image :: "image \<Rightarrow> futil_file_type" where
  "ft_recognize_bios_image img =
     (if fmap img = None then FILE_TYPE_UNKNOWN
      else
        let gbb_slot = (fmap_find_by_name img (fmap_name BIOS_FMAP_GBB) \<noteq> None);
            fw_slot_a = (fmap_find_by_name img (fmap_name BIOS_FMAP_FW_MAIN_A) \<noteq> None);
            vblock_slot_a = (fmap_find_by_name img (fmap_name BIOS_FMAP_VBLOCK_A) \<noteq> None)
        in if gbb_slot \<and> fw_slot_a \<and> vblock_slot_a
           then FILE_TYPE_BIOS_IMAGE
           else FILE_TYPE_UNKNOWN)"

text \<open>An area of the given name is present in the table.\<close>

definition has_area :: "FmapAreaHeader list \<Rightarrow> string \<Rightarrow> bool" where
  "has_area ahs name = (\<exists>ah \<in> set ahs. take FMAP_NAMELEN (area_name ah) = take FMAP_NAMELEN name)"

text \<open>The table without the areas of slot B.\<close>

definition without_slot_b :: "image \<Rightarrow> image" where
  "without_slot_b img =
     img\<lparr>fmap := map_option
        (filter (\<lambda>ah. \<not> strncmp_eq (area_name ah) (fmap_name BIOS_FMAP_FW_MAIN_B) FMAP_NAMELEN
                    \<and> \<not> strncmp_eq (area_name ah) (fmap_name BIOS_FMAP_VBLOCK_B) FMAP_NAMELEN))
        (fmap img)\<rparr>"


section \<open>BIOS images: state of the show and sign passes\<close>

text \<open>Diagnostics printed by the \<^verbatim>\<open>ERROR\<close>, \<^verbatim>\<open>WARN\<close> and \<^verbatim>\<open>INFO\<close> macros, in order.
  \<^verbatim>\<open>VB2_DEBUG\<close> lines and \<^verbatim>\<open>printf\<close> output are left out.\<close>

datatype diag = ERROR string | WARN string | INFO string

text \<open>
  How a call ends: it returns; or \<^verbatim>\<open>FATAL\<close> ends the whole process; or a
  \<^verbatim>\<open>memcpy\<close> runs past the end of its source or destination object, which C leaves
  undefined.
\<close>

datatype 'a result = Returns 'a | Exits | Overrun

fun then_result :: "'a result \<Rightarrow> ('a \<Rightarrow> 'b result) \<Rightarrow> 'b result" where
  "then_result (Returns v) f = f v"
| "then_result Exits f = Exits"
| "then_result Overrun f = Overrun"

type_synonym vb2_error_t = nat

definition VB2_SUCCESS :: vb2_error_t where
  "VB2_SUCCESS = 0"

record vb2_hash =
  algo :: nat
  digest :: "u8 list"

definition VB2_HASH_INVALID :: nat where
  "VB2_HASH_INVALID = 0"

text \<open>
  \<^verbatim>\<open>struct bios_area_s\<close>. \<open>buf\<close> is the pointer, held as its distance from the
  start of the mapped buffer; \<open>fw_size\<close> is a \<^verbatim>\<open>size_t\<close>.
\<close>

record bios_area_s =
  offset :: u32
  buf :: nat
  len :: u32
  is_valid :: u32
  flags :: u32
  version :: u32
  fw_size :: nat
  metadata_hash :: vb2_hash

record bios_state_s =
  c :: bios_component
  area :: "bios_component \<Rightarrow> bios_area_s"
  recovery_key :: bios_area_s
  rootkey :: bios_area_s

definition zero_area :: bios_area_s where
  "zero_area = \<lparr>offset = 0, buf = 0, len = 0, is_valid = 0, flags = 0, version = 0,
                 fw_size = 0, metadata_hash = \<lparr>algo = 0, digest = []\<rparr>\<rparr>"

text \<open>\<^verbatim>\<open>struct bios_state_s state = {0}\<close>.\<close>

definition zero_state :: bios_state_s where
  "zero_state = \<lparr>c = BIOS_FMAP_GBB, area = (\<lambda>_. zero_area),
                  recovery_key = zero_area, rootkey = zero_area\<rparr>"

definition set_area ::
  "bios_state_s \<Rightarrow> bios_component \<Rightarrow> (bios_area_s \<Rightarrow> bios_area_s) \<Rightarrow> bios_state_s" where
  "set_area st k f = st\<lparr>area := (area st)(k := f (area st k))\<rparr>"

text \<open>The bytes that a pointer and a length name in the buffer.\<close>

definition bytes_at :: "image \<Rightarrow> nat \<Rightarrow> u32 \<Rightarrow> u8 list" where
  "bytes_at img p n = take (unat n) (drop p (bytes img))"

text \<open>The structures of the vboot library, as far as this code reads their fields.\<close>

record vb2_packed_key =
  key_offset :: u32
  key_size :: u32
  key_data :: "u8 list"

record vb2_keyblock =
  keyblock_size :: u32
  data_key :: vb2_packed_key
  keyblock_data :: "u8 list"

record vb2_fw_preamble =
  preamble_size :: u32
  firmware_version :: u32
  preamble_flags :: u32
  body_signature_data_size :: u32
  preamble_data :: "u8 list"

record vb2_gbb_header =
  rootkey_offset :: u32
  rootkey_size :: u32
  recovery_key_offset :: u32
  recovery_key_size :: u32

text \<open>\<^verbatim>\<open>sign_option\<close>, the options of the sign command (a global of the program).\<close>

record sign_option_s =
  opt_signprivate :: "u8 list"
  opt_keyblock :: vb2_keyblock
  opt_kernel_subkey :: "u8 list"
  opt_version :: u32
  opt_version_specified :: bool
  opt_flags :: u32
  opt_flags_specified :: bool
  opt_loemdir :: "string option"
  opt_loemid :: "string option"

datatype file_outcome = Open_failed | Write_failed | Close_failed | Written

text \<open>
  What this code calls and src/ does not hold: the vboot library, cbfstool, the file
  system, and the layout of the structures it casts buffer addresses to. Each is a
  parameter. A function that returns \<^verbatim>\<open>vb2_error_t\<close> gives \<open>VB2_SUCCESS\<close> or another
  number; one that returns a pointer gives \<open>None\<close> for \<^verbatim>\<open>NULL\<close>; one that stores
  through a pointer argument gives the stored value beside its return value.

  The helpers of the show pass get a pointer into the mapped buffer, which is writable.
  What they store there cannot be read off src/: \<open>buffer_after\<close> gives the buffer as a
  call of a helper, with the pointer and the other arguments it got, leaves it.
\<close>

datatype helper_call =
  Futil_valid_gbb_header nat u32
  | Print_hwid_digest nat
  | Vb2_packed_key_looks_ok nat u32
  | Show_pubkey nat
  | Show_fw_preamble_buf string nat u32 bios_state_s

record ext =
  keyblock_at :: "u8 list \<Rightarrow> vb2_keyblock"
  fw_preamble_at :: "u8 list \<Rightarrow> vb2_fw_preamble"
  gbb_header_at :: "u8 list \<Rightarrow> vb2_gbb_header"
  packed_key_at :: "u8 list \<Rightarrow> vb2_packed_key"
  sizeof_fw_preamble :: nat
  PATH_MAX :: nat
  vb2_verify_keyblock_hash :: "u8 list \<Rightarrow> u32 \<Rightarrow> vb2_error_t"
  vb2_packed_key_looks_ok :: "vb2_packed_key \<Rightarrow> u32 \<Rightarrow> vb2_error_t"
  vb2_unpack_key :: "vb2_packed_key \<Rightarrow> vb2_error_t \<times> u8 list"
  vb2_verify_fw_preamble :: "u8 list \<Rightarrow> u32 \<Rightarrow> u8 list \<Rightarrow> vb2_error_t"
  vb2_create_signature_from_hash :: "vb2_hash \<Rightarrow> u8 list option"
  vb2_calculate_signature :: "u8 list \<Rightarrow> u8 list \<Rightarrow> u8 list option"
  vb2_create_fw_preamble ::
    "u32 \<Rightarrow> u8 list \<Rightarrow> u8 list \<Rightarrow> u8 list \<Rightarrow> u32 \<Rightarrow> vb2_fw_preamble option"
  futil_valid_gbb_header :: "u8 list \<Rightarrow> u32 \<Rightarrow> bool \<times> u32"
  show_fw_preamble_buf ::
    "string \<Rightarrow> image \<Rightarrow> nat \<Rightarrow> u32 \<Rightarrow> bios_state_s \<Rightarrow> int \<times> bios_state_s"
  buffer_after :: "helper_call \<Rightarrow> image \<Rightarrow> image"
  cbfstool_get_config_value :: "string \<Rightarrow> string \<Rightarrow> vb2_error_t \<times> string option"
  cbfstool_truncate :: "string \<Rightarrow> string \<Rightarrow> nat \<Rightarrow> vb2_error_t \<times> nat"
  cbfstool_get_metadata_hash :: "string \<Rightarrow> string \<Rightarrow> vb2_hash \<Rightarrow> vb2_error_t \<times> vb2_hash"
  futil_open_and_map_file :: "string \<Rightarrow> (image \<times> u32) option"
  write_file :: "string \<Rightarrow> u8 list \<Rightarrow> file_outcome"

section \<open>BIOS images: signing\<close>

text \<open>
  \<^verbatim>\<open>memcpy(mem + dst, src, n)\<close> into the mapped buffer. It is defined when the \<open>n\<close>
  bytes lie inside the source object and inside the buffer.
\<close>

definition memcpy :: "u8 list \<Rightarrow> nat \<Rightarrow> u8 list \<Rightarrow> nat \<Rightarrow> u8 list option" where
  "memcpy mem dst src n =
     (if n \<le> length src \<and> dst + n \<le> length mem
      then Some (take dst mem @ take n src @ drop (dst + n) mem)
      else None)"

text \<open>\<^verbatim>\<open>write_new_preamble\<close>. The sum of the two sizes is a 32-bit sum.\<close>

definition write_new_preamble ::
  "ext \<Rightarrow> sign_option_s \<Rightarrow> image \<Rightarrow> bios_area_s \<Rightarrow> bios_area_s \<Rightarrow> u8 list
     \<Rightarrow> vb2_keyblock \<Rightarrow> (int \<times> image \<times> diag list) result" where
  "write_new_preamble x so img vblock fw_body signkey keyblock =
     (let body_sig =
            (if algo (metadata_hash fw_body) \<noteq> VB2_HASH_INVALID
             then vb2_create_signature_from_hash x (metadata_hash fw_body)
             else vb2_calculate_signature x (bytes_at img (buf fw_body) (len fw_body)) signkey)
      in case body_sig of
           None \<Rightarrow> Returns (1, img, [ERROR ''Cannot calculate or creating body signature''])
         | Some sig \<Rightarrow>
            (case vb2_create_fw_preamble x (version vblock) (opt_kernel_subkey so) sig signkey
                    (flags vblock) of
               None \<Rightarrow> Returns (1, img, [ERROR ''Cannot create firmware preamble.''])
             | Some preamble \<Rightarrow>
                if keyblock_size keyblock + preamble_size preamble > len vblock
                then Returns (1, img, [ERROR ''Keyblock and preamble do not fit in VBLOCK.''])
                else
                  let more = keyblock_size keyblock
                  in case memcpy (bytes img) (buf vblock) (keyblock_data keyblock) (unat more) of
                       None \<Rightarrow> Overrun
                     | Some m1 \<Rightarrow>
                        (case memcpy m1 (buf vblock + unat more) (preamble_data preamble)
                                (unat (preamble_size preamble)) of
                           None \<Rightarrow> Overrun
                         | Some m2 \<Rightarrow> Returns (0, img\<lparr>bytes := m2\<rparr>, []))))"

text \<open>\<^verbatim>\<open>write_loem\<close>.\<close>

definition write_loem ::
  "ext \<Rightarrow> sign_option_s \<Rightarrow> image \<Rightarrow> string \<Rightarrow> bios_area_s \<Rightarrow> int \<times> diag list" where
  "write_loem x so img ab vblock =
     (let filename = (case opt_loemdir so of Some d \<Rightarrow> d | None \<Rightarrow> ''.'') @ ''/vblock_'' @ ab
                       @ ''.'' @ (case opt_loemid so of Some i \<Rightarrow> i | None \<Rightarrow> [])
      in if length filename \<ge> PATH_MAX x
         then (1, [ERROR ''LOEM args produce bogus filename''])
         else case write_file x filename (bytes_at img (buf vblock) (len vblock)) of
                Open_failed \<Rightarrow> (1, [ERROR (''Cannot open '' @ filename @ '' for writing'')])
              | Write_failed \<Rightarrow> (1, [ERROR (''Cannot write to '' @ filename)])
              | Close_failed \<Rightarrow> (1, [ERROR ''Failed closing loem output''])
              | Written \<Rightarrow> (0, []))"

text \<open>\<^verbatim>\<open>sign_bios_at_end\<close>. \<^verbatim>\<open>retval |= ...\<close> is the bitwise or of \<^verbatim>\<open>int\<close>.\<close>

definition sign_bios_at_end ::
  "ext \<Rightarrow> sign_option_s \<Rightarrow> image \<Rightarrow> bios_state_s \<Rightarrow> (int \<times> image \<times> diag list) result" where
  "sign_bios_at_end x so img state =
     (let vblock_a = area state BIOS_FMAP_VBLOCK_A;
          vblock_b = area state BIOS_FMAP_VBLOCK_B;
          fw_a = area state BIOS_FMAP_FW_MAIN_A;
          fw_b = area state BIOS_FMAP_FW_MAIN_B
      in if is_valid vblock_a = 0 \<or> is_valid fw_a = 0
         then Returns (1, img, [ERROR (''Something'' @ [CHR 0x27] @ ''s wrong. Not changing anything'')])
         else
           then_result
             (write_new_preamble x so img vblock_a fw_a (opt_signprivate so) (opt_keyblock so))
             (\<lambda>(r1, img1, d1).
           then_result
             (if is_valid vblock_b \<noteq> 0 \<and> is_valid fw_b \<noteq> 0
              then write_new_preamble x so img1 vblock_b fw_b (opt_signprivate so)
                     (opt_keyblock so)
              else Returns (0, img1,
                     [INFO (''BIOS image does not have '' @ fmap_name BIOS_FMAP_FW_MAIN_B
                            @ ''. Signing only '' @ fmap_name BIOS_FMAP_FW_MAIN_A)]))
             (\<lambda>(r2, img2, d2).
                let retval = (0 OR r1) OR r2
                in if opt_loemid so \<noteq> None
                   then
                     let (la, da) = write_loem x so img2 ''A'' vblock_a;
                         (lb, db) = (if is_valid vblock_b \<noteq> 0
                                     then write_loem x so img2 ''B'' vblock_b else (0, []))
                     in Returns ((retval OR la) OR lb, img2, d1 @ d2 @ da @ db)
                   else Returns (retval, img2, d1 @ d2))))"

text \<open>
  \<^verbatim>\<open>prepare_slot\<close>, second half: the checks of the keyblock and preamble that the
  VBLOCK already holds, up to the label \<^verbatim>\<open>end\<close>. The result is the existing preamble
  when \<^verbatim>\<open>keyblock_valid\<close> is left 1, and \<open>None\<close> when a check jumped to \<^verbatim>\<open>end\<close>.
  \<^verbatim>\<open>keyblock_size + sizeof(struct vb2_fw_preamble)\<close> is a \<^verbatim>\<open>size_t\<close> sum.
\<close>

definition check_vblock ::
  "ext \<Rightarrow> image \<Rightarrow> bios_component \<Rightarrow> bios_component \<Rightarrow> bios_state_s
     \<Rightarrow> vb2_fw_preamble option \<times> bios_state_s \<times> diag list" where
  "check_vblock x img fw_c vblock_c state =
     (let vblock_name = fmap_name vblock_c;
          vlen = len (area state vblock_c);
          vb = bytes_at img (buf (area state vblock_c)) vlen;
          keyblock = keyblock_at x vb
      in if vb2_verify_keyblock_hash x vb vlen \<noteq> VB2_SUCCESS
         then (None, state, [WARN (vblock_name @ '' keyblock is invalid.'')])
         else if vb2_packed_key_looks_ok x (data_key keyblock)
                   (key_offset (data_key keyblock) + key_size (data_key keyblock)) \<noteq> 0
         then (None, state, [WARN (vblock_name @ '' public key is invalid.'')])
         else
           let (rc, pubkey) = vb2_unpack_key x (data_key keyblock)
           in if rc \<noteq> VB2_SUCCESS
              then (None, state, [WARN (vblock_name @ '' data key is invalid. Failed to parse.'')])
              else if unat (keyblock_size keyblock) + sizeof_fw_preamble x > unat vlen
              then (None, state,
                    [ERROR (vblock_name @ '' is invalid. Keyblock and preamble do not fit.'')])
              else
                let pb = drop (unat (keyblock_size keyblock)) vb;
                    preamble = fw_preamble_at x pb
                in if vb2_verify_fw_preamble x pb (vlen - keyblock_size keyblock) pubkey \<noteq> 0
                   then (None, state, [WARN (vblock_name @ '' preamble is invalid.'')])
                   else if fw_size (area state fw_c) = 0
                   then
                     if body_signature_data_size preamble > len (area state fw_c)
                     then (None, state,
                           [ERROR (vblock_name @ '' says the firmware is larger than we have.'')])
                     else (Some preamble,
                           set_area state fw_c
                             (\<lambda>a. a\<lparr>len := body_signature_data_size preamble\<rparr>), [])
                   else (Some preamble, state, []))"

text \<open>\<^verbatim>\<open>prepare_slot\<close>, from the label \<^verbatim>\<open>end\<close>.\<close>

definition prepare_slot_end ::
  "sign_option_s \<Rightarrow> bios_component \<Rightarrow> vb2_fw_preamble option \<Rightarrow> bios_state_s \<Rightarrow> bios_state_s" where
  "prepare_slot_end so vblock_c keyblock_valid state =
     set_area state vblock_c
       (\<lambda>a. a\<lparr>flags := (if opt_flags_specified so then opt_flags so
                        else case keyblock_valid of Some preamble \<Rightarrow> preamble_flags preamble
                             | None \<Rightarrow> 0),
              version := (if opt_version_specified so then opt_version so
                          else case keyblock_valid of Some preamble \<Rightarrow> firmware_version preamble
                               | None \<Rightarrow> 1),
              is_valid := 1\<rparr>)"

text \<open>\<^verbatim>\<open>prepare_slot\<close>. The result is the return value, the buffer, the state and
  the diagnostics.\<close>

definition prepare_slot ::
  "ext \<Rightarrow> sign_option_s \<Rightarrow> image \<Rightarrow> u32 \<Rightarrow> bios_component \<Rightarrow> bios_component \<Rightarrow> bios_state_s
     \<Rightarrow> int \<times> image \<times> bios_state_s \<times> diag list" where
  "prepare_slot x so img ilen fw_c vblock_c state =
     (let fw_main_name = fmap_name fw_c;
          vblock_name = fmap_name vblock_c
      in case fmap_find_by_name img fw_main_name of
           None \<Rightarrow> (1, img, state, [ERROR (fw_main_name @ '' area not found in FMAP'')])
         | Some (i, ah0) \<Rightarrow>
            let ah = fmap_limit_area ah0 ilen;
                img1 = store_area_header img i ah;
                st1 = set_area state fw_c (\<lambda>a. a\<lparr>buf := unat (area_offset ah), is_valid := 1\<rparr>)
            in if fw_size (area st1 fw_c) > unat (area_size ah)
               then (1, img1, st1, [ERROR (fmap_name fw_c @ '' size is incorrect.'')])
               else
                 let (st2, d1) =
                       (if fw_size (area st1 fw_c) \<noteq> 0
                        then (set_area st1 fw_c (\<lambda>a. a\<lparr>len := of_nat (fw_size a)\<rparr>), [])
                        else (set_area st1 fw_c (\<lambda>a. a\<lparr>len := area_size ah\<rparr>),
                              if algo (metadata_hash (area st1 fw_c)) = VB2_HASH_INVALID
                              then [WARN (fmap_name fw_c
                                      @ '' does not contain CBFS. Trying to sign entire area.'')]
                              else []))
                 in case fmap_find_by_name img1 vblock_name of
                      None \<Rightarrow> (1, img1, st2, d1 @ [ERROR (vblock_name @ '' area not found in FMAP'')])
                    | Some (j, bh0) \<Rightarrow>
                       let bh = fmap_limit_area bh0 ilen;
                           img2 = store_area_header img1 j bh;
                           st3 = set_area st2 vblock_c
                                   (\<lambda>a. a\<lparr>buf := unat (area_offset bh), len := area_size bh\<rparr>);
                           (keyblock_valid, st4, d2) = check_vblock x img2 fw_c vblock_c st3
                       in (0, img2, prepare_slot_end so vblock_c keyblock_valid st4, d1 @ d2))"

text \<open>\<^verbatim>\<open>image_uses_cbfs_integration\<close>.\<close>

definition image_uses_cbfs_integration :: "ext \<Rightarrow> string \<Rightarrow> bool" where
  "image_uses_cbfs_integration x file =
     (let (rc, v) = cbfstool_get_config_value x file ''CONFIG_VBOOT_CBFS_INTEGRATION''
      in if rc \<noteq> VB2_SUCCESS then False else v = Some ''y'')"

text \<open>\<^verbatim>\<open>image_check_and_prepare_cbfs\<close>.\<close>

definition image_check_and_prepare_cbfs ::
  "ext \<Rightarrow> string \<Rightarrow> bios_component \<Rightarrow> bool \<Rightarrow> bios_state_s \<Rightarrow> bios_state_s result" where
  "image_check_and_prepare_cbfs x file fw_c uses_cbfs_integration state =
     (if \<not> uses_cbfs_integration
      then
        let (rc, sz) = cbfstool_truncate x file (fmap_name fw_c) (fw_size (area state fw_c))
        in Returns (set_area state fw_c (\<lambda>a. a\<lparr>fw_size := sz\<rparr>))
      else
        let (rc, h) = cbfstool_get_metadata_hash x file (fmap_name fw_c)
                        (metadata_hash (area state fw_c))
        in if rc \<noteq> VB2_SUCCESS then Exits
           else Returns (set_area state fw_c (\<lambda>a. a\<lparr>metadata_hash := h\<rparr>)))"

text \<open>\<^verbatim>\<open>check_slot_after_prepare\<close>.\<close>

definition check_slot_after_prepare ::
  "bios_component \<Rightarrow> bool \<Rightarrow> bios_state_s \<Rightarrow> unit result" where
  "check_slot_after_prepare fw_c uses_cbfs_integration state =
     (if is_valid (area state fw_c) \<noteq> 0 \<and> uses_cbfs_integration
         \<and> algo (metadata_hash (area state fw_c)) = VB2_HASH_INVALID
      then Exits else Returns ())"

text \<open>
  \<^verbatim>\<open>ft_sign_bios\<close>. The result is the return value, the buffer as it stands at
  \<^verbatim>\<open>futil_unmap_and_close_file\<close> (\<open>None\<close> when the file was not mapped) and the
  diagnostics.
\<close>

definition ft_sign_bios ::
  "ext \<Rightarrow> sign_option_s \<Rightarrow> string \<Rightarrow> (int \<times> image option \<times> diag list) result" where
  "ft_sign_bios x so name =
     (let uses_cbfs_integration = image_uses_cbfs_integration x name
      in then_result
           (image_check_and_prepare_cbfs x name BIOS_FMAP_FW_MAIN_A uses_cbfs_integration
              zero_state)
           (\<lambda>s1.
         then_result
           (image_check_and_prepare_cbfs x name BIOS_FMAP_FW_MAIN_B uses_cbfs_integration s1)
           (\<lambda>s2.
              case futil_open_and_map_file x name of
                None \<Rightarrow> Returns (1, None, [])
              | Some (img, ilen) \<Rightarrow>
                 let (ra, img_a, st_a, d_a) =
                       prepare_slot x so img ilen BIOS_FMAP_FW_MAIN_A BIOS_FMAP_VBLOCK_A s2
                 in if ra \<noteq> 0 then Returns (ra, Some img_a, d_a)
                    else
                      let (rb, img_b, st_b, d_b) =
                            prepare_slot x so img_a ilen BIOS_FMAP_FW_MAIN_B BIOS_FMAP_VBLOCK_B
                              st_a
                      in if rb \<noteq> 0 \<and> is_valid (area st_b BIOS_FMAP_FW_MAIN_B) \<noteq> 0
                         then Returns (rb, Some img_b, d_a @ d_b)
                         else
                           then_result
                             (check_slot_after_prepare BIOS_FMAP_FW_MAIN_A
                                uses_cbfs_integration st_b)
                             (\<lambda>_.
                           then_result
                             (check_slot_after_prepare BIOS_FMAP_FW_MAIN_B
                                uses_cbfs_integration st_b)
                             (\<lambda>_.
                           then_result (sign_bios_at_end x so img_b st_b)
                             (\<lambda>(r, img_s, d_s). Returns (r, Some img_s, d_a @ d_b @ d_s)))))))"

section \<open>BIOS images: showing\<close>

text \<open>
  \<^verbatim>\<open>show_gbb_buf\<close>. The area is given by the pointer \<open>p\<close> (its distance from the start
  of the buffer) and its length; \<open>data\<close> is the state, \<open>None\<close> for \<^verbatim>\<open>NULL\<close>. The
  result holds the buffer as the helpers called leave it. \<^verbatim>\<open>gbb\<close> is a pointer into the
  buffer, so each field of the header is read from the buffer as it stands at that line.
\<close>

definition show_gbb_buf ::
  "ext \<Rightarrow> string \<Rightarrow> image \<Rightarrow> nat \<Rightarrow> u32 \<Rightarrow> bios_state_s option
     \<Rightarrow> int \<times> bios_state_s option \<times> image" where
  "show_gbb_buf x name img p blen data =
     (if blen = 0 then (1, data, img)
      else
        let gbb = (\<lambda>i. gbb_header_at x (bytes_at i p blen));
            (ok, maxlen) = futil_valid_gbb_header x (bytes_at img p blen) blen;
            img1 = buffer_after x (Futil_valid_gbb_header p blen) img;
            retval = (if \<not> ok then 1 else 0)
        in if retval \<noteq> 0 then (retval, data, img1)
           else
             let img2 = buffer_after x (Print_hwid_digest p) img1;
                 pk = p + unat (rootkey_offset (gbb img2));
                 rc = vb2_packed_key_looks_ok x
                        (packed_key_at x (bytes_at img2 pk (rootkey_size (gbb img2))))
                        (rootkey_size (gbb img2));
                 img3 = buffer_after x (Vb2_packed_key_looks_ok pk (rootkey_size (gbb img2))) img2;
                 (retval1, data1, img4) =
                   (if rc = VB2_SUCCESS
                    then (retval,
                          map_option
                            (\<lambda>state. state\<lparr>rootkey := (rootkey state)
                               \<lparr>offset := offset (area state BIOS_FMAP_GBB)
                                            + rootkey_offset (gbb img3),
                                buf := p + unat (rootkey_offset (gbb img3)),
                                len := rootkey_size (gbb img3),
                                is_valid := 1\<rparr>\<rparr>) data,
                          buffer_after x (Show_pubkey pk) img3)
                    else (1, data, img3));
                 pk2 = p + unat (recovery_key_offset (gbb img4));
                 rc2 = vb2_packed_key_looks_ok x
                         (packed_key_at x (bytes_at img4 pk2 (recovery_key_size (gbb img4))))
                         (recovery_key_size (gbb img4));
                 img5 = buffer_after x
                          (Vb2_packed_key_looks_ok pk2 (recovery_key_size (gbb img4))) img4;
                 (retval2, data2, img6) =
                   (if rc2 = VB2_SUCCESS
                    then (retval1,
                          map_option
                            (\<lambda>state. state\<lparr>recovery_key := (recovery_key state)
                               \<lparr>offset := offset (area state BIOS_FMAP_GBB)
                                            + recovery_key_offset (gbb img5),
                                buf := p + unat (recovery_key_offset (gbb img5)),
                                len := recovery_key_size (gbb img5),
                                is_valid := 1\<rparr>\<rparr>) data1,
                          buffer_after x (Show_pubkey pk2) img5)
                    else (1, data1, img5))
             in (retval2,
                 if retval2 = 0
                 then map_option (\<lambda>state. set_area state BIOS_FMAP_GBB (\<lambda>a. a\<lparr>is_valid := 1\<rparr>))
                        data2
                 else data2,
                 img6))"

text \<open>\<^verbatim>\<open>ft_show_gbb\<close>: the return value, the state and the buffer at unmapping.\<close>

definition ft_show_gbb ::
  "ext \<Rightarrow> string \<Rightarrow> bios_state_s option \<Rightarrow> int \<times> bios_state_s option \<times> image option" where
  "ft_show_gbb x name data =
     (case futil_open_and_map_file x name of
        None \<Rightarrow> (1, data, None)
      | Some (img, ilen) \<Rightarrow>
         let (retval, data1, img1) = show_gbb_buf x name img 0 ilen data
         in (retval, data1, Some img1))"

text \<open>\<^verbatim>\<open>fmap_show_fw_main\<close>. It calls no helper and stores nothing in the buffer.\<close>

definition fmap_show_fw_main ::
  "string \<Rightarrow> image \<Rightarrow> nat \<Rightarrow> u32 \<Rightarrow> bios_state_s \<Rightarrow> int \<times> bios_state_s" where
  "fmap_show_fw_main name img p blen state =
     (if blen = 0 then (1, state)
      else (0, set_area state (c state) (\<lambda>a. a\<lparr>is_valid := 1\<rparr>)))"

text \<open>The table \<^verbatim>\<open>fmap_show_fn[]\<close>: the return value, the state and the buffer after
  the call.\<close>

fun fmap_show_fn ::
  "ext \<Rightarrow> bios_component \<Rightarrow> string \<Rightarrow> image \<Rightarrow> nat \<Rightarrow> u32 \<Rightarrow> bios_state_s
     \<Rightarrow> int \<times> bios_state_s \<times> image" where
  "fmap_show_fn x BIOS_FMAP_GBB name img p blen state =
     (case show_gbb_buf x name img p blen (Some state) of
        (r, Some state1, img1) \<Rightarrow> (r, state1, img1)
      | (r, None, img1) \<Rightarrow> (r, state, img1))"
| "fmap_show_fn x BIOS_FMAP_FW_MAIN_A name img p blen state =
     (case fmap_show_fw_main name img p blen state of (r, state1) \<Rightarrow> (r, state1, img))"
| "fmap_show_fn x BIOS_FMAP_FW_MAIN_B name img p blen state =
     (case fmap_show_fw_main name img p blen state of (r, state1) \<Rightarrow> (r, state1, img))"
| "fmap_show_fn x BIOS_FMAP_VBLOCK_A name img p blen state =
     (case show_fw_preamble_buf x name img p blen state of
        (r, state1) \<Rightarrow> (r, state1, buffer_after x (Show_fw_preamble_buf name p blen state) img))"
| "fmap_show_fn x BIOS_FMAP_VBLOCK_B name img p blen state =
     (case show_fw_preamble_buf x name img p blen state of
        (r, state1) \<Rightarrow> (r, state1, buffer_after x (Show_fw_preamble_buf name p blen state) img))"

text \<open>One pass of the loop of \<^verbatim>\<open>ft_show_bios\<close>, for the component \<open>k\<close>.\<close>

definition show_component ::
  "ext \<Rightarrow> u32 \<Rightarrow> bios_component \<Rightarrow> image \<times> bios_state_s \<times> int \<Rightarrow> image \<times> bios_state_s \<times> int"
  where
  "show_component x ilen k = (\<lambda>(img, state, retval).
     case fmap_find_by_name img (fmap_name k) of
       None \<Rightarrow> (img, state, retval)
     | Some (i, ah0) \<Rightarrow>
        let ah = fmap_limit_area ah0 ilen;
            img1 = store_area_header img i ah;
            ah_name = take FMAP_NAMELEN (area_name ah);
            st1 = set_area (state\<lparr>c := k\<rparr>) k
                    (\<lambda>a. a\<lparr>offset := area_offset ah, buf := unat (area_offset ah),
                           len := area_size ah\<rparr>);
            (r, st2, img2) =
               fmap_show_fn x k ah_name img1 (buf (area st1 k)) (len (area st1 k)) st1
        in (img2, st2, retval + r))"

text \<open>\<^verbatim>\<open>ft_show_bios\<close>: the return value and the buffer at unmapping.\<close>

definition ft_show_bios :: "ext \<Rightarrow> string \<Rightarrow> int \<times> image option" where
  "ft_show_bios x name =
     (case futil_open_and_map_file x name of
        None \<Rightarrow> (1, None)
      | Some (img, ilen) \<Rightarrow>
         let (img1, state, retval) =
               fold (show_component x ilen)
                 [BIOS_FMAP_GBB, BIOS_FMAP_FW_MAIN_A, BIOS_FMAP_FW_MAIN_B,
                  BIOS_FMAP_VBLOCK_A, BIOS_FMAP_VBLOCK_B]
                 (img, zero_state, 0)
         in (retval, Some img1))"

section \<open>Kernel images: kernel_utility\<close>

text \<open>
  \<^verbatim>\<open>KernelImage\<close>, as far as \<^verbatim>\<open>GenerateSignedImage\<close> reads or writes it. A pointer
  field is \<open>None\<close> while it is \<^verbatim>\<open>NULL\<close>. The header fields copied here are 16-bit
  (the \<^verbatim>\<open>uint16_t\<close> casts of the function and the \<^verbatim>\<open>UINT16_MAX\<close> bounds of
  \<^verbatim>\<open>CheckOptions\<close>); \<open>padded_header_size\<close> is an unsigned 64-bit field, so the
  \<^verbatim>\<open>int\<close> stored in it wraps.
\<close>

record KernelImage =
  magic :: "u8 list"
  header_version :: u16
  header_len :: u16
  firmware_sign_algorithm :: u16
  kernel_sign_algorithm :: u16
  kernel_key_version :: u16
  kernel_sign_key :: "u8 list option"
  header_checksum :: "u8 list"
  kernel_key_signature :: "u8 list option"
  kernel_version :: u16
  padded_header_size :: "64 word"
  kernel_len :: nat
  bootloader_offset :: nat
  bootloader_size :: nat
  kernel_data :: "u8 list option"
  preamble_signature :: "u8 list option"
  kernel_signature :: "u8 list option"

text \<open>The members of \<^verbatim>\<open>KernelUtility\<close> that generation uses (without the trailing
  underscore of their names).\<close>

record KernelUtility =
  image :: "KernelImage option"
  subkey_in_file :: string
  firmware_key_file :: string
  kernel_key_file :: string
  kernel_key_pub_file :: string
  firmware_sign_algorithm_opt :: int
  kernel_sign_algorithm_opt :: int
  kernel_key_version_opt :: int
  kernel_version_opt :: int
  padding :: int
  vmlinuz_file :: string
  config_file :: string
  bootloader_file :: string

text \<open>The calls that compute a signature and add it to the image, in order.\<close>

datatype sigcall = Call_AddKernelKeySignature | Call_AddKernelSignature

text \<open>
  What \<^verbatim>\<open>GenerateSignedImage\<close> calls and src/ does not hold (cryptolib, file_keys,
  kernel_image), each a parameter. \<open>FIELD_LEN_header_checksum\<close> is
  \<^verbatim>\<open>FIELD_LEN(header_checksum)\<close>; \<open>host_u16\<close> reads a 16-bit field from the two
  bytes copied into it; \<open>Malloc\<close> gives the contents of a fresh block.
\<close>

record kext =
  KernelImageNew :: KernelImage
  KERNEL_MAGIC :: "u8 list"
  kNumAlgorithms :: int
  siglen_map :: "u16 \<Rightarrow> int"
  RSAProcessedKeySize :: "u16 \<Rightarrow> int"
  GetKernelHeaderLen :: "KernelImage \<Rightarrow> int"
  CalculateKernelHeaderChecksum :: "KernelImage \<Rightarrow> u8 list"
  FIELD_LEN_header_checksum :: nat
  host_u16 :: "u8 list \<Rightarrow> u16"
  Malloc :: "nat \<Rightarrow> u8 list"
  BufferFromFile :: "string \<Rightarrow> u8 list option"
  AddKernelKeySignature :: "KernelImage \<Rightarrow> string \<Rightarrow> bool \<times> KernelImage"
  AddKernelSignature :: "KernelImage \<Rightarrow> string \<Rightarrow> bool \<times> KernelImage"
  GenerateKernelBlob :: "string \<Rightarrow> string \<Rightarrow> string \<Rightarrow> u8 list option \<times> nat \<times> nat \<times> nat"

record MemcpyState =
  remaining_len :: nat
  remaining_buf :: "u8 list"
  overrun :: int

text \<open>
  Modelled from the spec: \<^verbatim>\<open>StatefulMemcpy\<close> (stateful_util) is not under src/. It is
  the bounded read of the codec (spec 4.2: fixed header fields, then the variable-length
  key, with truncation caught): the next \<open>n\<close> bytes when that many remain; otherwise
  nothing is copied and \<open>overrun\<close> is set, and stays set. The result holds the bytes
  copied to the destination, \<open>None\<close> when the destination is left as it was.
\<close>

definition StatefulMemcpy :: "MemcpyState \<Rightarrow> nat \<Rightarrow> MemcpyState \<times> u8 list option" where
  "StatefulMemcpy st n =
     (if overrun st \<noteq> 0 then (st, None)
      else if n > remaining_len st then (st\<lparr>overrun := 1\<rparr>, None)
      else (st\<lparr>remaining_len := remaining_len st - n,
                remaining_buf := drop n (remaining_buf st)\<rparr>,
            Some (take n (remaining_buf st))))"

text \<open>\<^verbatim>\<open>SafeMemcmp\<close> over \<open>n\<close> bytes: 0 when they agree.\<close>

definition SafeMemcmp :: "u8 list \<Rightarrow> u8 list \<Rightarrow> nat \<Rightarrow> int" where
  "SafeMemcmp a b n = (if take n a = take n b then 0 else 1)"

text \<open>A 16-bit field after a \<^verbatim>\<open>StatefulMemcpy\<close> into it.\<close>

definition copied_u16 :: "kext \<Rightarrow> u8 list option \<Rightarrow> u16 \<Rightarrow> u16" where
  "copied_u16 x r old = (case r of None \<Rightarrow> old | Some bs \<Rightarrow> host_u16 x bs)"

text \<open>
  \<^verbatim>\<open>GenerateSignedImage\<close>, the lines after the two header branches: the kernel blob, the
  preamble and the kernel signatures.
\<close>

definition fill_and_sign ::
  "kext \<Rightarrow> KernelUtility \<Rightarrow> KernelImage \<Rightarrow> sigcall list
     \<Rightarrow> bool \<times> KernelUtility \<times> sigcall list" where
  "fill_and_sign x u img calls =
     (let img1 = img\<lparr>kernel_version := of_int (kernel_version_opt u)\<rparr>;
          img2 = (if padding u \<noteq> 0 then img1\<lparr>padded_header_size := of_int (padding u)\<rparr> else img1);
          (blob, klen, boff, bsize) =
             GenerateKernelBlob x (vmlinuz_file u) (config_file u) (bootloader_file u);
          img3 = img2\<lparr>kernel_data := blob, kernel_len := klen, bootloader_offset := boff,
                      bootloader_size := bsize\<rparr>
      in if blob = None then (False, u\<lparr>image := Some img3\<rparr>, calls)
         else
           let (ok, img4) = AddKernelSignature x img3 (kernel_key_file u)
           in if \<not> ok
              then (False, u\<lparr>image := Some img4\<rparr>, calls @ [Call_AddKernelSignature])
              else (True, u\<lparr>image := Some img4\<rparr>, calls @ [Call_AddKernelSignature]))"

text \<open>
  \<^verbatim>\<open>GenerateSignedImage\<close>, the branch that uses an existing subkey header, up to the
  copy of the stored checksum: \<open>Inl\<close>, with the image as it stands, where the
  function returns at one of the checks of the algorithms or of the header length.
\<close>

definition read_subkey_header ::
  "kext \<Rightarrow> KernelImage \<Rightarrow> MemcpyState \<Rightarrow> KernelImage + KernelImage \<times> MemcpyState" where
  "read_subkey_header x img st =
     (let (st1, r1) = StatefulMemcpy st 2;
          img1 = img\<lparr>header_version := copied_u16 x r1 (header_version img)\<rparr>;
          (st2, r2) = StatefulMemcpy st1 2;
          img2 = img1\<lparr>header_len := copied_u16 x r2 (header_len img1)\<rparr>;
          (st3, r3) = StatefulMemcpy st2 2;
          img3 = img2\<lparr>firmware_sign_algorithm :=
                         copied_u16 x r3 (firmware_sign_algorithm img2)\<rparr>;
          (st4, r4) = StatefulMemcpy st3 2;
          img4 = img3\<lparr>kernel_sign_algorithm := copied_u16 x r4 (kernel_sign_algorithm img3)\<rparr>
      in if uint (firmware_sign_algorithm img4) \<ge> kNumAlgorithms x then Inl img4
         else if uint (kernel_sign_algorithm img4) \<ge> kNumAlgorithms x then Inl img4
         else
           let kernel_sign_key_len = RSAProcessedKeySize x (kernel_sign_algorithm img4);
               hlen = GetKernelHeaderLen x img4
           in if hlen \<noteq> uint (header_len img4) then Inl img4
              else
                let (st5, r5) = StatefulMemcpy st4 2;
                    img5 = img4\<lparr>kernel_key_version :=
                                   copied_u16 x r5 (kernel_key_version img4)\<rparr>;
                    (st6, r6) = StatefulMemcpy st5 (nat kernel_sign_key_len);
                    img6 = img5\<lparr>kernel_sign_key :=
                                   Some (case r6 of Some bs \<Rightarrow> bs
                                         | None \<Rightarrow> Malloc x (nat kernel_sign_key_len))\<rparr>;
                    (st7, r7) = StatefulMemcpy st6 (FIELD_LEN_header_checksum x);
                    img7 = img6\<lparr>header_checksum :=
                                   (case r7 of Some bs \<Rightarrow> bs | None \<Rightarrow> header_checksum img6)\<rparr>
                in Inr (img7, st7))"

text \<open>
  \<^verbatim>\<open>KernelUtility::GenerateSignedImage\<close>: the value returned, the object with its
  \<^verbatim>\<open>image_\<close>, and the signature calls made.
\<close>

definition GenerateSignedImage ::
  "kext \<Rightarrow> KernelUtility \<Rightarrow> bool \<times> KernelUtility \<times> sigcall list" where
  "GenerateSignedImage x u =
     (let img0 = (KernelImageNew x)\<lparr>magic := KERNEL_MAGIC x\<rparr>
      in if subkey_in_file u = []
         then
           let img1 = img0\<lparr>header_version := 1,
                           firmware_sign_algorithm := of_int (firmware_sign_algorithm_opt u),
                           kernel_sign_algorithm := of_int (kernel_sign_algorithm_opt u),
                           kernel_sign_key := BufferFromFile x (kernel_key_pub_file u)\<rparr>
           in if kernel_sign_key img1 = None then (False, u\<lparr>image := Some img1\<rparr>, [])
              else
                let img2 = img1\<lparr>kernel_key_version := of_int (kernel_key_version_opt u)\<rparr>;
                    img3 = img2\<lparr>header_len := of_int (GetKernelHeaderLen x img2)\<rparr>;
                    img4 = img3\<lparr>header_checksum := CalculateKernelHeaderChecksum x img3\<rparr>;
                    (ok, img5) = AddKernelKeySignature x img4 (firmware_key_file u)
                in if \<not> ok
                   then (False, u\<lparr>image := Some img5\<rparr>, [Call_AddKernelKeySignature])
                   else fill_and_sign x u img5 [Call_AddKernelKeySignature]
         else
           case BufferFromFile x (subkey_in_file u) of
             None \<Rightarrow> (False, u\<lparr>image := Some img0\<rparr>, [])
           | Some subkey_header_buf \<Rightarrow>
              let st = \<lparr>remaining_len = length subkey_header_buf,
                        remaining_buf = subkey_header_buf, overrun = 0\<rparr>
              in case read_subkey_header x img0 st of
                   Inl img4 \<Rightarrow> (False, u\<lparr>image := Some img4\<rparr>, [])
                 | Inr (img7, st7) \<Rightarrow>
                    if SafeMemcmp (CalculateKernelHeaderChecksum x img7) (header_checksum img7)
                         (FIELD_LEN_header_checksum x) \<noteq> 0
                    then (False, u\<lparr>image := Some img7\<rparr>, [])
                    else
                      let kernel_key_signature_len = siglen_map x (firmware_sign_algorithm img7);
                          (st8, r8) = StatefulMemcpy st7 (nat kernel_key_signature_len);
                          img8 = img7\<lparr>kernel_key_signature :=
                                    Some (case r8 of Some bs \<Rightarrow> bs
                                          | None \<Rightarrow> Malloc x (nat kernel_key_signature_len))\<rparr>
                      in if overrun st8 \<noteq> 0 \<or> remaining_len st8 \<noteq> 0
                         then (False, u\<lparr>image := Some img8\<rparr>, [])
                         else (True, u\<lparr>image := Some img8\<rparr>, []))"

section \<open>A small instance of the external functions\<close>

text \<open>
  To run the definitions on concrete inputs the external functions need values. In this
  instance a keyblock starts with its size in one byte and is accepted when that size is
  not 0 and fits; a preamble is four bytes: 1 when its signature holds, the version, the
  flags, the size of the signed body. A new preamble is laid out the same way.
\<close>

definition test_keyblock_at :: "u8 list \<Rightarrow> vb2_keyblock" where
  "test_keyblock_at bs =
     \<lparr>keyblock_size = (case bs of [] \<Rightarrow> 0 | b # _ \<Rightarrow> ucast b),
      data_key = \<lparr>key_offset = 0, key_size = 0, key_data = []\<rparr>,
      keyblock_data = bs\<rparr>"

definition test_fw_preamble_at :: "u8 list \<Rightarrow> vb2_fw_preamble" where
  "test_fw_preamble_at bs =
     (case bs of
        s # v # f # d # _ \<Rightarrow>
          \<lparr>preamble_size = 4, firmware_version = ucast v, preamble_flags = ucast f,
           body_signature_data_size = ucast d, preamble_data = [s, v, f, d]\<rparr>
      | _ \<Rightarrow> \<lparr>preamble_size = 0, firmware_version = 0, preamble_flags = 0,
              body_signature_data_size = 0, preamble_data = []\<rparr>)"

definition image_a :: image where
  "image_a =
     \<lparr>fmap = Some [\<lparr>area_offset = 0, area_size = 16, area_name = ''GBB''\<rparr>,
                   \<lparr>area_offset = 16, area_size = 32, area_name = ''FW_MAIN_A''\<rparr>,
                   \<lparr>area_offset = 48, area_size = 16, area_name = ''VBLOCK_A''\<rparr>],
      bytes = replicate 48 0 @ [2, 0, 1, 7, 5, 16] @ replicate 10 0\<rparr>"

definition image_fresh :: image where
  "image_fresh =
     \<lparr>fmap = Some [\<lparr>area_offset = 0, area_size = 16, area_name = ''GBB''\<rparr>,
                   \<lparr>area_offset = 16, area_size = 32, area_name = ''FW_MAIN_A''\<rparr>,
                   \<lparr>area_offset = 48, area_size = 16, area_name = ''VBLOCK_A''\<rparr>],
      bytes = replicate 64 0\<rparr>"

definition image_half_b :: image where
  "image_half_b =
     \<lparr>fmap = Some [\<lparr>area_offset = 0, area_size = 16, area_name = ''GBB''\<rparr>,
                   \<lparr>area_offset = 16, area_size = 32, area_name = ''FW_MAIN_A''\<rparr>,
                   \<lparr>area_offset = 48, area_size = 16, area_name = ''VBLOCK_A''\<rparr>,
                   \<lparr>area_offset = 64, area_size = 32, area_name = ''FW_MAIN_B''\<rparr>],
      bytes = replicate 96 0\<rparr>"

definition image_cut :: image where
  "image_cut =
     \<lparr>fmap = Some [\<lparr>area_offset = 0, area_size = 16, area_name = ''GBB''\<rparr>,
                   \<lparr>area_offset = 16, area_size = 32, area_name = ''FW_MAIN_A''\<rparr>,
                   \<lparr>area_offset = 48, area_size = 16, area_name = ''VBLOCK_A''\<rparr>],
      bytes = replicate 40 0\<rparr>"

definition image_no_vblock :: image where
  "image_no_vblock =
     \<lparr>fmap = Some [\<lparr>area_offset = 0, area_size = 16, area_name = ''GBB''\<rparr>,
                   \<lparr>area_offset = 16, area_size = 32, area_name = ''FW_MAIN_A''\<rparr>],
      bytes = replicate 64 0\<rparr>"

definition test_images :: "(string \<times> image \<times> u32) list" where
  "test_images =
     [(''a.bin'', image_a, 64), (''fresh.bin'', image_fresh, 64),
      (''half_b.bin'', image_half_b, 96), (''cut.bin'', image_cut, 40),
      (''cbfs.bin'', image_fresh, 64), (''cbfs_ok.bin'', image_fresh, 64),
      (''no_vblock.bin'', image_no_vblock, 64)]"

definition test_ext :: ext where
  "test_ext =
     \<lparr>keyblock_at = test_keyblock_at,
      fw_preamble_at = test_fw_preamble_at,
      gbb_header_at = (\<lambda>_. \<lparr>rootkey_offset = 0, rootkey_size = 0, recovery_key_offset = 0,
                             recovery_key_size = 0\<rparr>),
      packed_key_at = (\<lambda>bs. \<lparr>key_offset = 0, key_size = 0, key_data = bs\<rparr>),
      sizeof_fw_preamble = 4,
      PATH_MAX = 4096,
      vb2_verify_keyblock_hash =
        (\<lambda>bs n. case bs of [] \<Rightarrow> 1 | b # _ \<Rightarrow> if b \<noteq> 0 \<and> ucast b \<le> n then 0 else 1),
      vb2_packed_key_looks_ok = (\<lambda>_ _. 0),
      vb2_unpack_key = (\<lambda>k. (0, key_data k)),
      vb2_verify_fw_preamble = (\<lambda>bs n k. case bs of [] \<Rightarrow> 1 | s # _ \<Rightarrow> if s = 1 then 0 else 1),
      vb2_create_signature_from_hash = (\<lambda>h. Some (digest h)),
      vb2_calculate_signature = (\<lambda>body k. Some [of_nat (length body)]),
      vb2_create_fw_preamble =
        (\<lambda>v subkey sig k f.
           Some \<lparr>preamble_size = 4, firmware_version = v, preamble_flags = f,
                 body_signature_data_size = (case sig of [] \<Rightarrow> 0 | d # _ \<Rightarrow> ucast d),
                 preamble_data = [1, ucast v, ucast f, (case sig of [] \<Rightarrow> 0 | d # _ \<Rightarrow> d)]\<rparr>),
      futil_valid_gbb_header = (\<lambda>_ _. (False, 0)),
      show_fw_preamble_buf = (\<lambda>_ _ _ _ st. (0, st)),
      buffer_after = (\<lambda>_ i. i),
      cbfstool_get_config_value =
        (\<lambda>file _. if file = ''cbfs.bin'' \<or> file = ''cbfs_ok.bin'' then (0, Some ''y'')
                   else (1, None)),
      cbfstool_truncate = (\<lambda>_ _ _. (1, 0)),
      cbfstool_get_metadata_hash =
        (\<lambda>file _ h. if file = ''cbfs_ok.bin'' then (0, \<lparr>algo = 2, digest = [9]\<rparr>) else (1, h)),
      futil_open_and_map_file = map_of test_images,
      write_file = (\<lambda>_ _. Written)\<rparr>"

text \<open>The same instance, with a metadata hash found in FW_MAIN_A only.\<close>

definition ext_no_hash_b :: ext where
  "ext_no_hash_b =
     test_ext\<lparr>cbfstool_get_metadata_hash :=
       (\<lambda>file region h. if region = ''FW_MAIN_A'' then (0, \<lparr>algo = 2, digest = [9]\<rparr>)
                         else (1, h))\<rparr>"

definition test_sign_option :: sign_option_s where
  "test_sign_option =
     \<lparr>opt_signprivate = [], opt_keyblock = test_keyblock_at [2, 0],
      opt_kernel_subkey = [], opt_version = 0, opt_version_specified = False,
      opt_flags = 0, opt_flags_specified = False, opt_loemdir = None, opt_loemid = None\<rparr>"

text \<open>Two areas as \<^verbatim>\<open>prepare_slot\<close> leaves them for \<open>image_fresh\<close>, and a keyblock
  of 4294967294 bytes.\<close>

definition vblock_16 :: bios_area_s where
  "vblock_16 = zero_area\<lparr>buf := 48, len := 16, is_valid := 1, version := 1\<rparr>"

definition fw_32 :: bios_area_s where
  "fw_32 = zero_area\<lparr>buf := 16, len := 32, is_valid := 1\<rparr>"

definition huge_keyblock :: vb2_keyblock where
  "huge_keyblock =
     \<lparr>keyblock_size = 0xFFFFFFFE,
      data_key = \<lparr>key_offset = 0, key_size = 0, key_data = []\<rparr>,
      keyblock_data = replicate 4294967294 0\<rparr>"

text \<open>
  An instance of the external functions of kernel_utility. A processed key has 3 bytes, a
  signature 2, the checksum 2 (the low bytes of the header length and of the key
  version); 16-bit fields are read little-endian.
\<close>

definition zero_kernel_image :: KernelImage where
  "zero_kernel_image =
     \<lparr>magic = [], header_version = 0, header_len = 0, firmware_sign_algorithm = 0,
      kernel_sign_algorithm = 0, kernel_key_version = 0, kernel_sign_key = None,
      header_checksum = [0, 0], kernel_key_signature = None, kernel_version = 0,
      padded_header_size = 0, kernel_len = 0, bootloader_offset = 0, bootloader_size = 0,
      kernel_data = None, preamble_signature = None, kernel_signature = None\<rparr>"

definition test_kext :: kext where
  "test_kext =
     \<lparr>KernelImageNew = zero_kernel_image,
      KERNEL_MAGIC = [67, 72, 82, 79, 77, 69, 79, 83],
      kNumAlgorithms = 12,
      siglen_map = (\<lambda>_. 2),
      RSAProcessedKeySize = (\<lambda>_. 3),
      GetKernelHeaderLen = (\<lambda>_. 15),
      CalculateKernelHeaderChecksum =
        (\<lambda>img. [ucast (header_len img), ucast (kernel_key_version img)]),
      FIELD_LEN_header_checksum = 2,
      host_u16 = (\<lambda>bs. case bs of [a, b] \<Rightarrow> ucast a + 256 * ucast b | _ \<Rightarrow> 0),
      Malloc = (\<lambda>n. replicate n 0),
      BufferFromFile =
        map_of [(''subkey.bin'', [1, 0, 15, 0, 0, 0, 0, 0, 1, 0, 1, 2, 3, 15, 1, 7, 7]),
                (''damaged.bin'', [1, 0, 15, 0, 0, 0, 0, 0, 1, 0, 1, 2, 3, 15, 0, 7, 7]),
                (''kernel_key.pub'', [1, 2, 3])],
      AddKernelKeySignature = (\<lambda>img _. (True, img\<lparr>kernel_key_signature := Some [7, 7]\<rparr>)),
      AddKernelSignature =
        (\<lambda>img _. (True, img\<lparr>preamble_signature := Some [8, 8],
                               kernel_signature := Some [9, 9]\<rparr>)),
      GenerateKernelBlob = (\<lambda>_ _ _. (Some [1, 2, 3, 4], 4, 0, 0))\<rparr>"

text \<open>Options of a \<^verbatim>\<open>--generate\<close> run that \<^verbatim>\<open>CheckOptions\<close> accepts, with and without
  \<^verbatim>\<open>--subkey_in\<close>.\<close>

definition reuse_utility :: KernelUtility where
  "reuse_utility =
     \<lparr>image = None, subkey_in_file = ''subkey.bin'', firmware_key_file = [],
      kernel_key_file = ''kernel.key'', kernel_key_pub_file = [],
      firmware_sign_algorithm_opt = - 1, kernel_sign_algorithm_opt = - 1,
      kernel_key_version_opt = - 1, kernel_version_opt = 1, padding = 0,
      vmlinuz_file = ''vmlinuz'', config_file = ''config'', bootloader_file = ''bootloader''\<rparr>"

definition fresh_utility :: KernelUtility where
  "fresh_utility =
     \<lparr>image = None, subkey_in_file = [], firmware_key_file = ''firmware.key'',
      kernel_key_file = ''kernel.key'', kernel_key_pub_file = ''kernel_key.pub'',
      firmware_sign_algorithm_opt = 0, kernel_sign_algorithm_opt = 0,
      kernel_key_version_opt = 1, kernel_version_opt = 1, padding = 0,
      vmlinuz_file = ''vmlinuz'', config_file = ''config'', bootloader_file = ''bootloader''\<rparr>"

section \<open>Notions used to state the properties\<close>

text \<open>The header of the area of a given name, as it stands after \<^verbatim>\<open>fmap_limit_area\<close>.\<close>

definition located :: "image \<Rightarrow> u32 \<Rightarrow> string \<Rightarrow> FmapAreaHeader option" where
  "located img ilen name =
     map_option (\<lambda>(i, ah). fmap_limit_area ah ilen) (fmap_find_by_name img name)"

text \<open>The buffer after the area of a given name was looked up and limited.\<close>

definition limit_named :: "u32 \<Rightarrow> string \<Rightarrow> image \<Rightarrow> image" where
  "limit_named ilen name img =
     (case fmap_find_by_name img name of
        None \<Rightarrow> img
      | Some (i, ah) \<Rightarrow> store_area_header img i (fmap_limit_area ah ilen))"

text \<open>The five area names of a BIOS image, in the order of \<^verbatim>\<open>enum bios_component\<close>.\<close>

definition bios_area_names :: "string list" where
  "bios_area_names =
     map fmap_name [BIOS_FMAP_GBB, BIOS_FMAP_FW_MAIN_A, BIOS_FMAP_FW_MAIN_B,
                    BIOS_FMAP_VBLOCK_A, BIOS_FMAP_VBLOCK_B]"

text \<open>
  An area table in which each header that the lookup of one of the given names finds is as
  \<^verbatim>\<open>fmap_limit_area\<close> leaves it, and every other header is as it was.
\<close>

definition limited_table :: "u32 \<Rightarrow> string list \<Rightarrow> FmapAreaHeader list \<Rightarrow> FmapAreaHeader list"
  where
  "limited_table ilen names ahs =
     map (\<lambda>j. if \<exists>n \<in> set names. find_area_index ahs n = Some j
               then fmap_limit_area (ahs ! j) ilen else ahs ! j)
       [0..<length ahs]"

text \<open>
  The buffers that are reached from a buffer by stores of two kinds only: the lookup of
  one of the given area names followed by \<^verbatim>\<open>fmap_limit_area\<close> on the header found, and
  what a helper stores when it is called.
\<close>

inductive buffer_stores :: "ext \<Rightarrow> u32 \<Rightarrow> string list \<Rightarrow> image \<Rightarrow> image \<Rightarrow> bool"
  for x :: ext and ilen :: u32 and names :: "string list" and img :: image where
  none: "buffer_stores x ilen names img img"
| limit: "buffer_stores x ilen names img j \<Longrightarrow> n \<in> set names \<Longrightarrow>
          buffer_stores x ilen names img (limit_named ilen n j)"
| helper: "buffer_stores x ilen names img j \<Longrightarrow>
           buffer_stores x ilen names img (buffer_after x call j)"

text \<open>No helper of the show pass stores anything in the buffer.\<close>

definition helpers_store_nothing :: "ext \<Rightarrow> bool" where
  "helpers_store_nothing x = (\<forall>call img. buffer_after x call img = img)"

text \<open>Every area of the table lies inside a buffer of the given length.\<close>

definition areas_in_range :: "image \<Rightarrow> u32 \<Rightarrow> bool" where
  "areas_in_range img ilen =
     (case fmap img of None \<Rightarrow> True
      | Some ahs \<Rightarrow> list_all (\<lambda>ah. fmap_limit_area ah ilen = ah) ahs)"

text \<open>The state with which \<^verbatim>\<open>ft_sign_bios\<close> maps the file: the zero state after the
  two calls of \<^verbatim>\<open>image_check_and_prepare_cbfs\<close>.\<close>

definition cbfs_prepared :: "ext \<Rightarrow> string \<Rightarrow> bios_state_s result" where
  "cbfs_prepared x name =
     then_result
       (image_check_and_prepare_cbfs x name BIOS_FMAP_FW_MAIN_A
          (image_uses_cbfs_integration x name) zero_state)
       (\<lambda>s1. image_check_and_prepare_cbfs x name BIOS_FMAP_FW_MAIN_B
          (image_uses_cbfs_integration x name) s1)"

text \<open>The choice of the body length in \<^verbatim>\<open>prepare_slot\<close> before the VBLOCK is looked at,
  with its warning.\<close>

definition fw_len_choice ::
  "bios_state_s \<Rightarrow> bios_component \<Rightarrow> FmapAreaHeader \<Rightarrow> bios_state_s \<times> diag list" where
  "fw_len_choice st1 fw_c ah =
     (if fw_size (area st1 fw_c) \<noteq> 0
      then (set_area st1 fw_c (\<lambda>a. a\<lparr>len := of_nat (fw_size a)\<rparr>), [])
      else (set_area st1 fw_c (\<lambda>a. a\<lparr>len := area_size ah\<rparr>),
            if algo (metadata_hash (area st1 fw_c)) = VB2_HASH_INVALID
            then [WARN (fmap_name fw_c
                    @ '' does not contain CBFS. Trying to sign entire area.'')]
            else []))"

text \<open>
  The four checks that \<^verbatim>\<open>prepare_slot\<close> makes of the keyblock and preamble found in a
  VBLOCK of bytes \<open>vb\<close>: keyblock hash, data key (its look and its unpacking), fit of
  keyblock and preamble, preamble signature.
\<close>

definition vblock_checks_pass :: "ext \<Rightarrow> u8 list \<Rightarrow> u32 \<Rightarrow> bool" where
  "vblock_checks_pass x vb vlen =
     (let keyblock = keyblock_at x vb
      in vb2_verify_keyblock_hash x vb vlen = VB2_SUCCESS
         \<and> vb2_packed_key_looks_ok x (data_key keyblock)
              (key_offset (data_key keyblock) + key_size (data_key keyblock)) = 0
         \<and> fst (vb2_unpack_key x (data_key keyblock)) = VB2_SUCCESS
         \<and> unat (keyblock_size keyblock) + sizeof_fw_preamble x \<le> unat vlen
         \<and> vb2_verify_fw_preamble x (drop (unat (keyblock_size keyblock)) vb)
              (vlen - keyblock_size keyblock) (snd (vb2_unpack_key x (data_key keyblock))) = 0)"

text \<open>The preamble that a VBLOCK of bytes \<open>vb\<close> holds after its keyblock.\<close>

definition existing_preamble :: "ext \<Rightarrow> u8 list \<Rightarrow> vb2_fw_preamble" where
  "existing_preamble x vb = fw_preamble_at x (drop (unat (keyblock_size (keyblock_at x vb))) vb)"

section \<open>The region table\<close>

lemma find_area_index_None: "find_area_index ahs name = None \<longleftrightarrow> \<not> has_area ahs name"
  by (induction ahs) (auto simp: has_area_def strncmp_eq_def)

lemma find_area_index_Some:
  "find_area_index ahs name = Some i \<Longrightarrow>
     i < length ahs \<and> strncmp_eq (area_name (ahs ! i)) name FMAP_NAMELEN"
  by (induction ahs arbitrary: i) (auto split: if_splits)

lemma fmap_limit_area_name: "area_name (fmap_limit_area ah blen) = area_name ah"
  by (simp add: fmap_limit_area_def Let_def)

lemma wrap_iff: "(a::u32) + b < b \<longleftrightarrow> 2 ^ 32 \<le> unat a + unat b"
proof -
  have "b \<le> b + a \<longleftrightarrow> unat b + unat a < 2 ^ 32"
    using no_plus_overflow_unat_size [of b a] by (simp add: word_size)
  then show ?thesis
    by (simp add: add.commute not_le [symmetric] del: not_le)
qed

text \<open>
  C4. An area whose offset + size wraps the 32-bit sum, or exceeds the buffer length,
  is forced to offset 0 and size 0; and whatever the header held, after the clamp the
  byte range it names ends inside the buffer.
\<close>

theorem fmap_limit_area_clamps:
  "(2 ^ 32 \<le> unat (area_offset ah) + unat (area_size ah)
      \<or> unat blen < unat (area_offset ah) + unat (area_size ah)
     \<longrightarrow> area_offset (fmap_limit_area ah blen) = 0 \<and> area_size (fmap_limit_area ah blen) = 0)
   \<and> unat (area_offset (fmap_limit_area ah blen)) + unat (area_size (fmap_limit_area ah blen))
       \<le> unat blen"
proof -
  let ?o = "area_offset ah" and ?s = "area_size ah"
  show ?thesis
  proof (cases "2 ^ 32 \<le> unat ?o + unat ?s")
    case True
    then have "?o + ?s < ?s" by (simp add: wrap_iff)
    then show ?thesis by (simp add: fmap_limit_area_def)
  next
    case False
    then have nowrap: "unat (?o + ?s) = unat ?o + unat ?s"
      by (simp add: unat_add_lem [THEN iffD1])
    from False have "\<not> ?o + ?s < ?s" by (simp add: wrap_iff)
    then show ?thesis
      using nowrap False by (auto simp: fmap_limit_area_def word_less_nat_alt)
  qed
qed

theorem fmap_limit_area_clamps_witness:
  "area_offset (fmap_limit_area
       \<lparr>area_offset = 0xFFFFFFF0, area_size = 0x20, area_name = ''GBB''\<rparr> 0x1000) = 0
   \<and> area_size (fmap_limit_area
       \<lparr>area_offset = 0xFFFFFFF0, area_size = 0x20, area_name = ''GBB''\<rparr> 0x1000) = 0"
  using fmap_limit_area_clamps
    [of "\<lparr>area_offset = 0xFFFFFFF0, area_size = 0x20, area_name = ''GBB''\<rparr>" "0x1000"]
  by simp

text \<open>
  C10. A buffer is recognised as a BIOS image exactly when it holds an FMAP and the
  areas GBB, FW_MAIN_A and VBLOCK_A are all present in it; dropping the slot-B areas
  (FW_MAIN_B, VBLOCK_B) from the table never changes the answer.
\<close>

theorem ft_recognize_bios_image_iff:
  "(ft_recognize_bios_image img = FILE_TYPE_BIOS_IMAGE
      \<longleftrightarrow> (\<exists>ahs. fmap img = Some ahs \<and> has_area ahs ''GBB''
                \<and> has_area ahs ''FW_MAIN_A'' \<and> has_area ahs ''VBLOCK_A''))
   \<and> ft_recognize_bios_image (without_slot_b img) = ft_recognize_bios_image img"
proof -
  have iff: "ft_recognize_bios_image i = FILE_TYPE_BIOS_IMAGE
      \<longleftrightarrow> (\<exists>ahs. fmap i = Some ahs \<and> has_area ahs ''GBB''
                \<and> has_area ahs ''FW_MAIN_A'' \<and> has_area ahs ''VBLOCK_A'')" for i
    by (cases "fmap i")
       (auto simp: ft_recognize_bios_image_def fmap_find_by_name_def find_area_index_None)
  have keep: "has_area (filter (\<lambda>ah. \<not> strncmp_eq (area_name ah) ''FW_MAIN_B'' FMAP_NAMELEN
                    \<and> \<not> strncmp_eq (area_name ah) ''VBLOCK_B'' FMAP_NAMELEN) ahs) n
              = has_area ahs n"
    if "n = ''GBB'' \<or> n = ''FW_MAIN_A'' \<or> n = ''VBLOCK_A''" for ahs n
    using that by (auto simp: has_area_def strncmp_eq_def FMAP_NAMELEN_def)
  have "ft_recognize_bios_image (without_slot_b img) = FILE_TYPE_BIOS_IMAGE
          \<longleftrightarrow> ft_recognize_bios_image img = FILE_TYPE_BIOS_IMAGE"
    unfolding iff by (cases "fmap img") (auto simp: without_slot_b_def keep)
  then have "ft_recognize_bios_image (without_slot_b img) = ft_recognize_bios_image img"
    by (cases "ft_recognize_bios_image (without_slot_b img)";
        cases "ft_recognize_bios_image img") auto
  with iff show ?thesis by blast
qed

theorem ft_recognize_bios_image_iff_witness:
  "ft_recognize_bios_image
     \<lparr>fmap = Some [\<lparr>area_offset = 0, area_size = 16, area_name = ''GBB''\<rparr>,
                   \<lparr>area_offset = 16, area_size = 16, area_name = ''FW_MAIN_A''\<rparr>,
                   \<lparr>area_offset = 32, area_size = 16, area_name = ''VBLOCK_A''\<rparr>],
      bytes = replicate 48 0\<rparr> = FILE_TYPE_BIOS_IMAGE"
  using ft_recognize_bios_image_iff
    [of "\<lparr>fmap = Some [\<lparr>area_offset = 0, area_size = 16, area_name = ''GBB''\<rparr>,
                   \<lparr>area_offset = 16, area_size = 16, area_name = ''FW_MAIN_A''\<rparr>,
                   \<lparr>area_offset = 32, area_size = 16, area_name = ''VBLOCK_A''\<rparr>],
      bytes = replicate 48 0\<rparr>"]
  by (simp add: has_area_def)

lemma fmap_limit_area_idem: "fmap_limit_area (fmap_limit_area ah n) n = fmap_limit_area ah n"
  by (simp add: fmap_limit_area_def Let_def)

lemma find_area_index_update:
  "area_name v = area_name (ahs ! i) \<Longrightarrow> i < length ahs \<Longrightarrow>
     find_area_index (ahs[i := v]) name = find_area_index ahs name"
proof (induction ahs arbitrary: i)
  case Nil then show ?case by simp
next
  case (Cons a ahs)
  then show ?case by (cases i) auto
qed

lemma located_store:
  assumes "fmap_find_by_name img n = Some (i, ah0)"
  shows "located (store_area_header img i (fmap_limit_area ah0 ilen)) ilen m = located img ilen m"
proof -
  from assms obtain ahs where f: "fmap img = Some ahs" and idx: "find_area_index ahs n = Some i"
    and ah0: "ah0 = ahs ! i"
    by (auto simp: fmap_find_by_name_def split: option.splits)
  from idx have i: "i < length ahs" by (simp add: find_area_index_Some)
  have same: "find_area_index (ahs[i := fmap_limit_area ah0 ilen]) m = find_area_index ahs m"
    using i ah0 by (simp add: find_area_index_update fmap_limit_area_name)
  show ?thesis
  proof (cases "find_area_index ahs m")
    case None
    then show ?thesis using f same
      by (simp add: located_def fmap_find_by_name_def store_area_header_def)
  next
    case (Some j)
    then have "j < length ahs" by (simp add: find_area_index_Some)
    then show ?thesis using f same Some i ah0
      by (cases "j = i")
         (simp_all add: located_def fmap_find_by_name_def store_area_header_def
            fmap_limit_area_idem)
  qed
qed

lemma located_limit_named: "located (limit_named ilen n img) ilen m = located img ilen m"
  by (cases "fmap_find_by_name img n") (auto simp: limit_named_def located_store)

lemma bytes_store [simp]: "bytes (store_area_header img i ah) = bytes img"
  by (simp add: store_area_header_def)

lemma bytes_limit_named [simp]: "bytes (limit_named ilen n img) = bytes img"
  by (cases "fmap_find_by_name img n") (auto simp: limit_named_def)

lemma bytes_at_cong: "bytes a = bytes b \<Longrightarrow> bytes_at a p n = bytes_at b p n"
  by (simp add: bytes_at_def)

lemma located_find:
  "fmap_find_by_name img n = Some (i, ah0) \<Longrightarrow> located img ilen n = Some (fmap_limit_area ah0 ilen)"
  by (simp add: located_def)

lemma located_None: "located img ilen n = None \<longleftrightarrow> fmap_find_by_name img n = None"
  by (simp add: located_def)

lemma limit_named_find:
  "fmap_find_by_name img n = Some (i, ah0) \<Longrightarrow>
     store_area_header img i (fmap_limit_area ah0 ilen) = limit_named ilen n img"
  by (simp add: limit_named_def)

lemma prepare_slot_unfold:
  "prepare_slot x so img ilen fw_c vblock_c state =
     (case located img ilen (fmap_name fw_c) of
        None \<Rightarrow> (1, img, state, [ERROR (fmap_name fw_c @ '' area not found in FMAP'')])
      | Some ah \<Rightarrow>
         let img1 = limit_named ilen (fmap_name fw_c) img;
             st1 = set_area state fw_c (\<lambda>a. a\<lparr>buf := unat (area_offset ah), is_valid := 1\<rparr>)
         in if fw_size (area st1 fw_c) > unat (area_size ah)
            then (1, img1, st1, [ERROR (fmap_name fw_c @ '' size is incorrect.'')])
            else
              let (st2, d1) = fw_len_choice st1 fw_c ah
              in case located img ilen (fmap_name vblock_c) of
                   None \<Rightarrow> (1, img1, st2,
                             d1 @ [ERROR (fmap_name vblock_c @ '' area not found in FMAP'')])
                 | Some bh \<Rightarrow>
                    let img2 = limit_named ilen (fmap_name vblock_c) img1;
                        st3 = set_area st2 vblock_c
                                (\<lambda>a. a\<lparr>buf := unat (area_offset bh), len := area_size bh\<rparr>);
                        (keyblock_valid, st4, d2) = check_vblock x img2 fw_c vblock_c st3
                    in (0, img2, prepare_slot_end so vblock_c keyblock_valid st4, d1 @ d2))"
proof (cases "fmap_find_by_name img (fmap_name fw_c)")
  case None
  then show ?thesis by (simp add: prepare_slot_def located_def)
next
  case (Some p)
  obtain i ah0 where p: "p = (i, ah0)" by (cases p)
  let ?img1 = "store_area_header img i (fmap_limit_area ah0 ilen)"
  have l1: "located ?img1 ilen (fmap_name vblock_c) = located img ilen (fmap_name vblock_c)"
    using Some p by (simp add: located_store)
  show ?thesis
  proof (cases "fmap_find_by_name ?img1 (fmap_name vblock_c)")
    case None
    then have "located img ilen (fmap_name vblock_c) = None"
      using l1 by (simp add: located_def)
    then show ?thesis using Some p None
      by (simp add: prepare_slot_def located_find limit_named_find Let_def fw_len_choice_def
            split: prod.splits)
  next
    case (Some q)
    obtain j bh0 where q: "q = (j, bh0)" by (cases q)
    have "located img ilen (fmap_name vblock_c) = Some (fmap_limit_area bh0 ilen)"
      using l1 Some q by (simp add: located_def)
    then show ?thesis using \<open>fmap_find_by_name img (fmap_name fw_c) = Some p\<close> p Some q
      by (simp add: prepare_slot_def located_find limit_named_find Let_def fw_len_choice_def
            split: prod.splits)
  qed
qed

lemma check_vblock_fail:
  assumes "\<not> vblock_checks_pass x (bytes_at img (buf (area state vblock_c)) (len (area state vblock_c)))
             (len (area state vblock_c))"
  shows "\<exists>m. check_vblock x img fw_c vblock_c state = (None, state, [WARN m])
             \<or> check_vblock x img fw_c vblock_c state = (None, state, [ERROR m])"
  using assms
  by (auto simp: check_vblock_def vblock_checks_pass_def Let_def split: prod.splits)

lemma check_vblock_pass:
  assumes "vblock_checks_pass x (bytes_at img (buf (area state vblock_c)) (len (area state vblock_c)))
             (len (area state vblock_c))"
  shows "check_vblock x img fw_c vblock_c state =
     (let preamble = existing_preamble x
                       (bytes_at img (buf (area state vblock_c)) (len (area state vblock_c)))
      in if fw_size (area state fw_c) = 0
         then
           if body_signature_data_size preamble > len (area state fw_c)
           then (None, state,
                 [ERROR (fmap_name vblock_c @ '' says the firmware is larger than we have.'')])
           else (Some preamble,
                 set_area state fw_c (\<lambda>a. a\<lparr>len := body_signature_data_size preamble\<rparr>), [])
         else (Some preamble, state, []))"
  using assms
  by (auto simp: check_vblock_def vblock_checks_pass_def existing_preamble_def Let_def
           split: prod.splits)

lemma area_set_area [simp]:
  "area (set_area st k f) j = (if j = k then f (area st k) else area st j)"
  by (simp add: set_area_def)

lemma prepare_slot_end_fields:
  "flags (area (prepare_slot_end so vblock_c kv st) vblock_c) =
     (if opt_flags_specified so then opt_flags so
      else case kv of Some p \<Rightarrow> preamble_flags p | None \<Rightarrow> 0)"
  "version (area (prepare_slot_end so vblock_c kv st) vblock_c) =
     (if opt_version_specified so then opt_version so
      else case kv of Some p \<Rightarrow> firmware_version p | None \<Rightarrow> 1)"
  "is_valid (area (prepare_slot_end so vblock_c kv st) vblock_c) = 1"
  by (simp_all add: prepare_slot_end_def)

section \<open>Preparing a slot\<close>

text \<open>
  C6. When both areas of a slot are found and the body length asked for fits, and the
  keyblock or preamble that the VBLOCK holds fails one of the checks (keyblock hash, data
  key, fit, preamble signature), \<^verbatim>\<open>prepare_slot\<close> still returns 0 and marks the
  VBLOCK valid, after a warning or error line; without \<^verbatim>\<open>flags_specified\<close> the
  flags are 0, and without \<^verbatim>\<open>version_specified\<close> the version is 1.
\<close>

theorem prepare_slot_invalid_vblock:
  assumes fw: "located img ilen (fmap_name fw_c) = Some ah"
    and size: "fw_size (area state fw_c) \<le> unat (area_size ah)"
    and vb: "located img ilen (fmap_name vblock_c) = Some bh"
    and bad: "\<not> vblock_checks_pass x (bytes_at img (unat (area_offset bh)) (area_size bh))
                 (area_size bh)"
  shows "\<exists>img1 st1 d.
           prepare_slot x so img ilen fw_c vblock_c state = (0, img1, st1, d)
           \<and> is_valid (area st1 vblock_c) = 1
           \<and> (\<not> opt_flags_specified so \<longrightarrow> flags (area st1 vblock_c) = 0)
           \<and> (\<not> opt_version_specified so \<longrightarrow> version (area st1 vblock_c) = 1)
           \<and> (\<exists>m. last d = WARN m \<or> last d = ERROR m)"
proof -
  define st1 where "st1 = set_area state fw_c (\<lambda>a. a\<lparr>buf := unat (area_offset ah), is_valid := 1\<rparr>)"
  obtain st2 d1 where c: "fw_len_choice st1 fw_c ah = (st2, d1)" by (cases "fw_len_choice st1 fw_c ah")
  define st3 where "st3 = set_area st2 vblock_c
                                (\<lambda>a. a\<lparr>buf := unat (area_offset bh), len := area_size bh\<rparr>)"
  define img2 where "img2 = limit_named ilen (fmap_name vblock_c) (limit_named ilen (fmap_name fw_c) img)"
  have b: "bytes_at img2 p n = bytes_at img p n" for p n
    by (simp add: img2_def bytes_at_def)
  have "buf (area st3 vblock_c) = unat (area_offset bh)" "len (area st3 vblock_c) = area_size bh"
    by (simp_all add: st3_def)
  with bad b obtain dd where cv: "check_vblock x img2 fw_c vblock_c st3 = (None, st3, [dd])"
    and dd: "\<exists>m. dd = WARN m \<or> dd = ERROR m"
    using check_vblock_fail [of x img2 st3 vblock_c fw_c] by auto
  have fs: "fw_size (area st1 fw_c) = fw_size (area state fw_c)"
    by (simp add: st1_def)
  have "prepare_slot x so img ilen fw_c vblock_c state =
          (0, img2, prepare_slot_end so vblock_c None st3, d1 @ [dd])"
    using fw vb size c cv fs
    by (simp add: prepare_slot_unfold Let_def st1_def [symmetric] st3_def [symmetric]
          img2_def [symmetric])
  then show ?thesis
    using dd by (simp add: prepare_slot_end_fields)
qed

lemma cbfs_warning_distinct:
  "fmap_name a @ '' does not contain CBFS. Trying to sign entire area.''
     \<noteq> fmap_name b @ '' keyblock is invalid.''"
  "fmap_name a @ '' does not contain CBFS. Trying to sign entire area.''
     \<noteq> fmap_name b @ '' public key is invalid.''"
  "fmap_name a @ '' does not contain CBFS. Trying to sign entire area.''
     \<noteq> fmap_name b @ '' data key is invalid. Failed to parse.''"
  "fmap_name a @ '' does not contain CBFS. Trying to sign entire area.''
     \<noteq> fmap_name b @ '' preamble is invalid.''"
  by (cases a; cases b; simp)+

lemma check_vblock_no_cbfs_warning:
  "WARN (fmap_name a @ '' does not contain CBFS. Trying to sign entire area.'')
     \<notin> set (snd (snd (check_vblock x img fw_c vblock_c st)))"
  by (auto simp: check_vblock_def Let_def cbfs_warning_distinct split: prod.splits)

lemma check_vblock_len:
  assumes "fw_c \<noteq> vblock_c"
  shows "len (area (fst (snd (check_vblock x img fw_c vblock_c st))) fw_c) =
     (let vb = bytes_at img (buf (area st vblock_c)) (len (area st vblock_c))
      in if fw_size (area st fw_c) = 0
            \<and> vblock_checks_pass x vb (len (area st vblock_c))
            \<and> body_signature_data_size (existing_preamble x vb) \<le> len (area st fw_c)
         then body_signature_data_size (existing_preamble x vb)
         else len (area st fw_c))"
proof (cases "vblock_checks_pass x (bytes_at img (buf (area st vblock_c)) (len (area st vblock_c)))
                 (len (area st vblock_c))")
  case True
  then show ?thesis
    by (auto simp: check_vblock_pass Let_def)
next
  case False
  then show ?thesis
    using check_vblock_fail [OF False, of fw_c] by (auto simp: Let_def)
qed

text \<open>
  C2, as the code has it. With both areas of a slot found: a body length \<^verbatim>\<open>fw_size\<close>
  larger than the limited FW_MAIN area makes \<^verbatim>\<open>prepare_slot\<close> return 1; otherwise it
  returns 0 and the signed length is (1) \<^verbatim>\<open>fw_size\<close> when that is not zero; (2) else
  the body size recorded in the preamble that the VBLOCK already holds, when its keyblock
  and preamble pass the checks and that size is not larger than the area; (3) else the
  whole limited area. The warning that the area does not contain CBFS is printed exactly
  when \<^verbatim>\<open>fw_size\<close> is zero and no metadata hash is set, in case (2) as in case (3).
\<close>

theorem prepare_slot_body_length:
  assumes fw: "located img ilen (fmap_name fw_c) = Some ah"
    and vb: "located img ilen (fmap_name vblock_c) = Some bh"
    and ne: "fw_c \<noteq> vblock_c"
    and run: "prepare_slot x so img ilen fw_c vblock_c state = (r, img1, st1, d)"
  shows "(fw_size (area state fw_c) > unat (area_size ah) \<longrightarrow> r = 1)
     \<and> (fw_size (area state fw_c) \<le> unat (area_size ah) \<longrightarrow>
          r = 0
          \<and> len (area st1 fw_c) =
              (let vbytes = bytes_at img (unat (area_offset bh)) (area_size bh)
               in if fw_size (area state fw_c) \<noteq> 0 then of_nat (fw_size (area state fw_c))
                  else if vblock_checks_pass x vbytes (area_size bh)
                          \<and> body_signature_data_size (existing_preamble x vbytes) \<le> area_size ah
                  then body_signature_data_size (existing_preamble x vbytes)
                  else area_size ah)
          \<and> (WARN (fmap_name fw_c @ '' does not contain CBFS. Trying to sign entire area.'')
                \<in> set d
              \<longleftrightarrow> fw_size (area state fw_c) = 0
                  \<and> algo (metadata_hash (area state fw_c)) = VB2_HASH_INVALID))"
proof (cases "fw_size (area state fw_c) > unat (area_size ah)")
  case True
  then show ?thesis using fw run by (simp add: prepare_slot_unfold Let_def)
next
  case False
  define st1a where "st1a = set_area state fw_c (\<lambda>a. a\<lparr>buf := unat (area_offset ah), is_valid := 1\<rparr>)"
  obtain st2 d1 where ch: "fw_len_choice st1a fw_c ah = (st2, d1)"
    by (cases "fw_len_choice st1a fw_c ah")
  define st3 where "st3 = set_area st2 vblock_c
                                (\<lambda>a. a\<lparr>buf := unat (area_offset bh), len := area_size bh\<rparr>)"
  define img2 where "img2 = limit_named ilen (fmap_name vblock_c) (limit_named ilen (fmap_name fw_c) img)"
  obtain kv st4 d2 where cv: "check_vblock x img2 fw_c vblock_c st3 = (kv, st4, d2)"
    by (cases "check_vblock x img2 fw_c vblock_c st3")
  have fs: "fw_size (area st1a fw_c) = fw_size (area state fw_c)"
    by (simp add: st1a_def)
  have res: "r = 0" "st1 = prepare_slot_end so vblock_c kv st4" "d = d1 @ d2"
    using fw vb False ch cv fs run
    by (simp_all add: prepare_slot_unfold Let_def st1a_def [symmetric] st3_def [symmetric]
          img2_def [symmetric])
  have b: "bytes_at img2 p n = bytes_at img p n" for p n
    by (simp add: img2_def bytes_at_def)
  have st3_v: "buf (area st3 vblock_c) = unat (area_offset bh)" "len (area st3 vblock_c) = area_size bh"
    by (simp_all add: st3_def)
  have st3_f: "fw_size (area st3 fw_c) = fw_size (area state fw_c)"
    "len (area st3 fw_c) = (if fw_size (area state fw_c) \<noteq> 0
                            then of_nat (fw_size (area state fw_c)) else area_size ah)"
    using ch ne by (auto simp: st3_def fw_len_choice_def st1a_def split: if_splits)
  have "len (area st1 fw_c) = len (area st4 fw_c)"
    using ne by (simp add: res prepare_slot_end_def)
  also have "\<dots> = len (area (fst (snd (check_vblock x img2 fw_c vblock_c st3))) fw_c)"
    by (simp add: cv)
  finally have l: "len (area st1 fw_c) =
      (let vbytes = bytes_at img (unat (area_offset bh)) (area_size bh)
               in if fw_size (area state fw_c) \<noteq> 0 then of_nat (fw_size (area state fw_c))
                  else if vblock_checks_pass x vbytes (area_size bh)
                          \<and> body_signature_data_size (existing_preamble x vbytes) \<le> area_size ah
                  then body_signature_data_size (existing_preamble x vbytes)
                  else area_size ah)"
    using ne by (simp add: check_vblock_len st3_v st3_f b Let_def)
  have d1: "d1 = (if fw_size (area state fw_c) = 0
                     \<and> algo (metadata_hash (area state fw_c)) = VB2_HASH_INVALID
                  then [WARN (fmap_name fw_c @ '' does not contain CBFS. Trying to sign entire area.'')]
                  else [])"
    using ch by (auto simp: fw_len_choice_def st1a_def split: if_splits)
  have "WARN (fmap_name fw_c @ '' does not contain CBFS. Trying to sign entire area.'') \<notin> set d2"
    using check_vblock_no_cbfs_warning [of fw_c x img2 fw_c vblock_c st3] by (simp add: cv)
  then have w: "WARN (fmap_name fw_c @ '' does not contain CBFS. Trying to sign entire area.'')
                \<in> set d
              \<longleftrightarrow> fw_size (area state fw_c) = 0
                  \<and> algo (metadata_hash (area state fw_c)) = VB2_HASH_INVALID"
    by (simp add: res d1)
  show ?thesis using False res(1) l w by simp
qed

lemma located_fresh_fw:
  "located image_fresh 64 (fmap_name BIOS_FMAP_FW_MAIN_A)
     = Some \<lparr>area_offset = 16, area_size = 32, area_name = ''FW_MAIN_A''\<rparr>"
  by (simp add: located_def fmap_find_by_name_def image_fresh_def strncmp_eq_def
        FMAP_NAMELEN_def fmap_limit_area_def)

lemma located_fresh_vblock:
  "located image_fresh 64 (fmap_name BIOS_FMAP_VBLOCK_A)
     = Some \<lparr>area_offset = 48, area_size = 16, area_name = ''VBLOCK_A''\<rparr>"
  by (simp add: located_def fmap_find_by_name_def image_fresh_def strncmp_eq_def
        FMAP_NAMELEN_def fmap_limit_area_def)

lemma fresh_vblock_bad:
  "\<not> vblock_checks_pass test_ext (bytes_at image_fresh (unat (48::u32)) 16) 16"
  by code_simp

theorem prepare_slot_invalid_vblock_witness:
  "\<exists>img1 st1 d.
     prepare_slot test_ext test_sign_option image_fresh 64 BIOS_FMAP_FW_MAIN_A
       BIOS_FMAP_VBLOCK_A zero_state = (0, img1, st1, d)
     \<and> is_valid (area st1 BIOS_FMAP_VBLOCK_A) = 1
     \<and> flags (area st1 BIOS_FMAP_VBLOCK_A) = 0
     \<and> version (area st1 BIOS_FMAP_VBLOCK_A) = 1
     \<and> (\<exists>m. last d = WARN m \<or> last d = ERROR m)"
  using prepare_slot_invalid_vblock [OF located_fresh_fw _ located_fresh_vblock, of zero_state test_ext test_sign_option] fresh_vblock_bad
  by (simp add: zero_state_def zero_area_def test_sign_option_def)

lemma located_a_fw:
  "located image_a 64 (fmap_name BIOS_FMAP_FW_MAIN_A)
     = Some \<lparr>area_offset = 16, area_size = 32, area_name = ''FW_MAIN_A''\<rparr>"
  by code_simp

lemma located_a_vblock:
  "located image_a 64 (fmap_name BIOS_FMAP_VBLOCK_A)
     = Some \<lparr>area_offset = 48, area_size = 16, area_name = ''VBLOCK_A''\<rparr>"
  by code_simp

lemma a_vblock_good:
  "vblock_checks_pass test_ext (bytes_at image_a (unat (48::u32)) 16) 16"
  "body_signature_data_size (existing_preamble test_ext (bytes_at image_a (unat (48::u32)) 16)) = 16"
  by code_simp+

theorem prepare_slot_body_length_counterexample:
  "fw_size (area zero_state BIOS_FMAP_FW_MAIN_A) = 0
   \<and> algo (metadata_hash (area zero_state BIOS_FMAP_FW_MAIN_A)) = VB2_HASH_INVALID
   \<and> located image_a 64 (fmap_name BIOS_FMAP_FW_MAIN_A)
        = Some \<lparr>area_offset = 16, area_size = 32, area_name = ''FW_MAIN_A''\<rparr>
   \<and> len (area (fst (snd (snd (prepare_slot test_ext test_sign_option image_a 64
          BIOS_FMAP_FW_MAIN_A BIOS_FMAP_VBLOCK_A zero_state)))) BIOS_FMAP_FW_MAIN_A) = 16"
  by code_simp

theorem prepare_slot_body_length_witness:
  "fst (prepare_slot test_ext test_sign_option image_a 64
          BIOS_FMAP_FW_MAIN_A BIOS_FMAP_VBLOCK_A zero_state) = 0
   \<and> len (area (fst (snd (snd (prepare_slot test_ext test_sign_option image_a 64
          BIOS_FMAP_FW_MAIN_A BIOS_FMAP_VBLOCK_A zero_state)))) BIOS_FMAP_FW_MAIN_A) = 16
   \<and> WARN ''FW_MAIN_A does not contain CBFS. Trying to sign entire area.''
        \<in> set (snd (snd (snd (prepare_slot test_ext test_sign_option image_a 64
          BIOS_FMAP_FW_MAIN_A BIOS_FMAP_VBLOCK_A zero_state))))"
proof -
  let ?P = "prepare_slot test_ext test_sign_option image_a 64
          BIOS_FMAP_FW_MAIN_A BIOS_FMAP_VBLOCK_A zero_state"
  have run: "?P = (fst ?P, fst (snd ?P), fst (snd (snd ?P)), snd (snd (snd ?P)))"
    by simp
  have ne: "BIOS_FMAP_FW_MAIN_A \<noteq> BIOS_FMAP_VBLOCK_A"
    by simp
  show ?thesis
    using prepare_slot_body_length [OF located_a_fw located_a_vblock ne run] a_vblock_good
    by (simp add: zero_state_def zero_area_def VB2_HASH_INVALID_def)
qed

section \<open>Writing the new preamble\<close>

lemma write_new_preamble_cases:
  "write_new_preamble x so img vblock fw_body signkey keyblock = Returns (r, img1, d) \<Longrightarrow>
     (r = 1 \<and> img1 = img) \<or> (r = 0 \<and> d = [])"
  by (auto simp: write_new_preamble_def Let_def split: option.splits if_splits)

text \<open>
  Where the sum of the two sizes does not wrap and is larger than the VBLOCK, the write
  returns 1 and the buffer is the one it was given.
\<close>

lemma write_new_preamble_no_fit:
  assumes "vb2_create_fw_preamble x (version vblock) (opt_kernel_subkey so) sig signkey
             (flags vblock) = Some preamble"
    and "(if algo (metadata_hash fw_body) \<noteq> VB2_HASH_INVALID
          then vb2_create_signature_from_hash x (metadata_hash fw_body)
          else vb2_calculate_signature x (bytes_at img (buf fw_body) (len fw_body)) signkey)
         = Some sig"
    and "unat (keyblock_size keyblock) + unat (preamble_size preamble) < 2 ^ 32"
    and "unat (len vblock) < unat (keyblock_size keyblock) + unat (preamble_size preamble)"
  shows "write_new_preamble x so img vblock fw_body signkey keyblock
           = Returns (1, img, [ERROR ''Keyblock and preamble do not fit in VBLOCK.''])"
proof -
  have "unat (keyblock_size keyblock + preamble_size preamble)
          = unat (keyblock_size keyblock) + unat (preamble_size preamble)"
    using assms(3) by (simp add: unat_add_lem [THEN iffD1])
  then have "keyblock_size keyblock + preamble_size preamble > len vblock"
    using assms(4) by (simp add: word_less_nat_alt)
  then show ?thesis
    using assms(1,2) by (simp add: write_new_preamble_def Let_def split: if_splits)
qed

text \<open>
  C1, the code at an input where the sum wraps. The VBLOCK has 16 bytes; the keyblock has
  4294967294 bytes and the new preamble 4, so the VBLOCK is smaller than keyblock and
  preamble together. The 32-bit sum is 2, the test against the 16 bytes passes, and the
  copy of the keyblock runs past the end of the 64-byte buffer: the write does not
  return 1.
\<close>

theorem write_new_preamble_wrapped_sum:
  "vb2_create_fw_preamble test_ext (version vblock_16) (opt_kernel_subkey test_sign_option)
      [32] [] (flags vblock_16)
     = Some \<lparr>preamble_size = 4, firmware_version = 1, preamble_flags = 0,
             body_signature_data_size = 32, preamble_data = [1, 1, 0, 32]\<rparr>
   \<and> length (keyblock_data huge_keyblock) = unat (keyblock_size huge_keyblock)
   \<and> unat (len vblock_16) < unat (keyblock_size huge_keyblock) + unat (4 :: u32)
   \<and> keyblock_size huge_keyblock + 4 = 2
   \<and> write_new_preamble test_ext test_sign_option image_fresh vblock_16 fw_32 []
        huge_keyblock = Overrun"
  by (simp add: write_new_preamble_def test_ext_def test_sign_option_def image_fresh_def
        vblock_16_def fw_32_def huge_keyblock_def zero_area_def bytes_at_def memcpy_def
        VB2_HASH_INVALID_def Let_def)

section \<open>Showing an image\<close>

lemma show_gbb_buf_image:
  "helpers_store_nothing x \<Longrightarrow> snd (snd (show_gbb_buf x name img p blen data)) = img"
  by (simp add: show_gbb_buf_def helpers_store_nothing_def Let_def case_prod_beta)

lemma fmap_show_fn_image:
  "helpers_store_nothing x \<Longrightarrow> snd (snd (fmap_show_fn x k name img p blen st)) = img"
  using show_gbb_buf_image [of x name img p blen "Some st"]
  by (cases k)
     (auto simp: helpers_store_nothing_def split: prod.splits option.splits)

lemma show_component_image:
  "helpers_store_nothing x \<Longrightarrow>
     fst (show_component x ilen k (img, st, r)) = limit_named ilen (fmap_name k) img"
  using fmap_show_fn_image [of x]
  by (cases "fmap_find_by_name img (fmap_name k)")
     (auto simp: show_component_def limit_named_def Let_def case_prod_beta)

lemma fold_show_component_image:
  assumes "helpers_store_nothing x"
  shows "fst (fold (show_component x ilen) ks (img, st, r))
     = fold (limit_named ilen) (map fmap_name ks) img"
proof (induction ks arbitrary: img st r)
  case Nil
  then show ?case by simp
next
  case (Cons k ks)
  obtain img1 st1 r1 where s: "show_component x ilen k (img, st, r) = (img1, st1, r1)"
    by (cases "show_component x ilen k (img, st, r)")
  then have "img1 = limit_named ilen (fmap_name k) img"
    using show_component_image [OF assms, of ilen k img st r] by simp
  then show ?case using Cons.IH [of img1 st1 r1] s by simp
qed

lemma limited_table_length [simp]: "length (limited_table ilen names ahs) = length ahs"
  by (simp add: limited_table_def)

lemma limited_table_nth:
  "j < length ahs \<Longrightarrow>
     limited_table ilen names ahs ! j
       = (if \<exists>n \<in> set names. find_area_index ahs n = Some j
          then fmap_limit_area (ahs ! j) ilen else ahs ! j)"
  by (simp add: limited_table_def)

lemma limited_table_Nil: "limited_table ilen [] ahs = ahs"
  by (simp add: limited_table_def map_nth)

lemma limit_named_table:
  assumes "fmap img = Some ahs"
  shows "limit_named ilen n img = img\<lparr>fmap := Some (limited_table ilen [n] ahs)\<rparr>"
proof (cases "find_area_index ahs n")
  case None
  then have "limited_table ilen [n] ahs = ahs"
    by (simp add: limited_table_def map_nth)
  then show ?thesis using None assms
    by (simp add: limit_named_def fmap_find_by_name_def)
next
  case (Some i)
  then have i: "i < length ahs" by (simp add: find_area_index_Some)
  have "limited_table ilen [n] ahs = ahs[i := fmap_limit_area (ahs ! i) ilen]"
    using Some i by (auto simp: list_eq_iff_nth_eq limited_table_nth nth_list_update)
  then show ?thesis using Some assms
    by (simp add: limit_named_def fmap_find_by_name_def store_area_header_def)
qed

lemma find_area_index_limited:
  "find_area_index (limited_table ilen [n] ahs) m = find_area_index ahs m"
proof (cases "find_area_index ahs n")
  case None
  then show ?thesis by (simp add: limited_table_def map_nth)
next
  case (Some i)
  then have i: "i < length ahs" by (simp add: find_area_index_Some)
  have "limited_table ilen [n] ahs = ahs[i := fmap_limit_area (ahs ! i) ilen]"
    using Some i by (auto simp: list_eq_iff_nth_eq limited_table_nth nth_list_update)
  then show ?thesis using i
    by (simp add: find_area_index_update fmap_limit_area_name)
qed

lemma limited_table_Cons:
  "limited_table ilen ns (limited_table ilen [n] ahs) = limited_table ilen (n # ns) ahs"
  by (auto simp: list_eq_iff_nth_eq limited_table_nth find_area_index_limited
        fmap_limit_area_idem)

lemma fold_limit_named_table:
  "fmap img = Some ahs \<Longrightarrow>
     fold (limit_named ilen) ns img = img\<lparr>fmap := Some (limited_table ilen ns ahs)\<rparr>"
proof (induction ns arbitrary: img ahs)
  case Nil
  then show ?case by (simp add: limited_table_Nil)
next
  case (Cons n ns)
  let ?img1 = "img\<lparr>fmap := Some (limited_table ilen [n] ahs)\<rparr>"
  have "fold (limit_named ilen) ns ?img1
          = ?img1\<lparr>fmap := Some (limited_table ilen ns (limited_table ilen [n] ahs))\<rparr>"
    by (rule Cons.IH) simp
  then show ?case
    using Cons.prems by (simp add: limit_named_table limited_table_Cons)
qed

lemma fold_limit_named_image:
  "fold (limit_named ilen) ns img = img\<lparr>fmap := map_option (limited_table ilen ns) (fmap img)\<rparr>"
proof (cases "fmap img")
  case None
  then have "limit_named ilen n i = i" if "fmap i = None" for n i
    using that by (simp add: limit_named_def fmap_find_by_name_def)
  then have "fold (limit_named ilen) ns img = img"
    using None by (induction ns) simp_all
  then show ?thesis using None by simp
next
  case (Some ahs)
  then show ?thesis by (simp add: fold_limit_named_table)
qed

lemma limited_table_in_range:
  "list_all (\<lambda>ah. fmap_limit_area ah ilen = ah) ahs \<Longrightarrow> limited_table ilen ns ahs = ahs"
  by (auto simp: list_eq_iff_nth_eq limited_table_nth list_all_length)

lemma fmap_limit_area_zero:
  assumes "2 ^ 32 \<le> unat (area_offset ah) + unat (area_size ah)
           \<or> unat blen < unat (area_offset ah) + unat (area_size ah)"
  shows "fmap_limit_area ah blen = ah\<lparr>area_offset := 0, area_size := 0\<rparr>"
proof (cases "2 ^ 32 \<le> unat (area_offset ah) + unat (area_size ah)")
  case True
  then have "area_offset ah + area_size ah < area_size ah" by (simp add: wrap_iff)
  then show ?thesis by (simp add: fmap_limit_area_def)
next
  case False
  then have "unat (area_offset ah + area_size ah) = unat (area_offset ah) + unat (area_size ah)"
    by (simp add: unat_add_lem [THEN iffD1])
  with assms False have "area_offset ah + area_size ah > blen"
    by (simp add: word_less_nat_alt)
  then show ?thesis by (simp add: fmap_limit_area_def)
qed

lemma show_gbb_buf_stores:
  "buffer_stores x ilen names img j \<Longrightarrow>
     buffer_stores x ilen names img (snd (snd (show_gbb_buf x name j p blen data)))"
  by (auto simp: show_gbb_buf_def Let_def case_prod_beta intro!: buffer_stores.helper)

lemma fmap_show_fn_stores:
  assumes "buffer_stores x ilen names img j"
  shows "buffer_stores x ilen names img (snd (snd (fmap_show_fn x k name j p blen st)))"
  using assms show_gbb_buf_stores [OF assms, of name p blen "Some st"]
  by (cases k) (auto split: prod.splits option.splits intro: buffer_stores.helper)

lemma show_component_stores:
  assumes "buffer_stores x ilen bios_area_names img j"
  shows "buffer_stores x ilen bios_area_names img (fst (show_component x ilen k (j, st, r)))"
proof (cases "fmap_find_by_name j (fmap_name k)")
  case None
  then show ?thesis using assms by (simp add: show_component_def)
next
  case (Some q)
  obtain i ah0 where q: "q = (i, ah0)" by (cases q)
  have "fmap_name k \<in> set bios_area_names"
    by (cases k) (simp_all add: bios_area_names_def)
  then have "buffer_stores x ilen bios_area_names img (limit_named ilen (fmap_name k) j)"
    using assms by (rule buffer_stores.limit [rotated])
  then have "buffer_stores x ilen bios_area_names img
               (store_area_header j i (fmap_limit_area ah0 ilen))"
    using Some q by (simp add: limit_named_def)
  then show ?thesis
    using Some q fmap_show_fn_stores [of x ilen bios_area_names img]
    by (simp add: show_component_def Let_def case_prod_beta)
qed

lemma fold_show_component_stores:
  "buffer_stores x ilen bios_area_names img j \<Longrightarrow>
     buffer_stores x ilen bios_area_names img (fst (fold (show_component x ilen) ks (j, st, r)))"
proof (induction ks arbitrary: j st r)
  case Nil
  then show ?case by simp
next
  case (Cons k ks)
  obtain j1 st1 r1 where s: "show_component x ilen k (j, st, r) = (j1, st1, r1)"
    by (cases "show_component x ilen k (j, st, r)")
  then have "buffer_stores x ilen bios_area_names img j1"
    using show_component_stores [OF Cons.prems, of k st r] by simp
  then show ?case using Cons.IH [of j1 st1 r1] s by simp
qed

text \<open>
  C9, as the code has it. Whatever the helpers do, every store into the buffer during
  \<^verbatim>\<open>ft_show_gbb\<close> is a store of a helper, and every store during \<^verbatim>\<open>ft_show_bios\<close>
  is a store of a helper or \<^verbatim>\<open>fmap_limit_area\<close> on the header of one of the five
  areas. When the helpers (which are not part of this code) store nothing:
  \<^verbatim>\<open>ft_show_gbb\<close> leaves the buffer as it mapped it. After \<^verbatim>\<open>ft_show_bios\<close> the bytes
  are as they were, the FMAP header of each of the five areas that was found is as
  \<^verbatim>\<open>fmap_limit_area\<close> leaves it, and every other header is as it was. So the header of a
  found area whose offset + size wraps, or exceeds the buffer length, has offset 0 and
  size 0 in the buffer afterwards; and when every area of the table lies inside the
  buffer, the buffer is after the show what it was before.
\<close>

theorem ft_show_bios_buffer:
  assumes "futil_open_and_map_file x name = Some (img, ilen)"
  shows "(\<exists>g. snd (snd (ft_show_gbb x name data)) = Some g \<and> buffer_stores x ilen [] img g)
     \<and> (\<exists>b. snd (ft_show_bios x name) = Some b \<and> buffer_stores x ilen bios_area_names img b)
     \<and> (helpers_store_nothing x \<longrightarrow>
          snd (snd (ft_show_gbb x name data)) = Some img
          \<and> snd (ft_show_bios x name)
              = Some (img\<lparr>fmap := map_option (limited_table ilen bios_area_names) (fmap img)\<rparr>)
          \<and> (fmap_find_by_name img (fmap_name k) = Some (i, ah)
               \<and> (2 ^ 32 \<le> unat (area_offset ah) + unat (area_size ah)
                   \<or> unat ilen < unat (area_offset ah) + unat (area_size ah))
              \<longrightarrow> map_option (\<lambda>b. map_option (\<lambda>t. t ! i) (fmap b)) (snd (ft_show_bios x name))
                   = Some (Some (ah\<lparr>area_offset := 0, area_size := 0\<rparr>)))
          \<and> (areas_in_range img ilen \<longrightarrow> snd (ft_show_bios x name) = Some img))"
proof -
  let ?F = "fold (show_component x ilen)
                 [BIOS_FMAP_GBB, BIOS_FMAP_FW_MAIN_A, BIOS_FMAP_FW_MAIN_B,
                  BIOS_FMAP_VBLOCK_A, BIOS_FMAP_VBLOCK_B]
                 (img, zero_state, 0)"
  let ?R = "img\<lparr>fmap := map_option (limited_table ilen bios_area_names) (fmap img)\<rparr>"
  have res: "snd (ft_show_bios x name) = Some (fst ?F)"
    using assms by (simp add: ft_show_bios_def split: prod.splits)
  have st_bios: "\<exists>b. snd (ft_show_bios x name) = Some b
                   \<and> buffer_stores x ilen bios_area_names img b"
  proof (intro exI conjI)
    show "snd (ft_show_bios x name) = Some (fst ?F)" by (rule res)
    show "buffer_stores x ilen bios_area_names img (fst ?F)"
      by (rule fold_show_component_stores [OF buffer_stores.none])
  qed
  have st_gbb: "\<exists>g. snd (snd (ft_show_gbb x name data)) = Some g
                   \<and> buffer_stores x ilen [] img g"
    using assms show_gbb_buf_stores [OF buffer_stores.none, of x ilen "[]" img name 0 ilen data]
    by (simp add: ft_show_gbb_def case_prod_beta)
  have quiet: "snd (snd (ft_show_gbb x name data)) = Some img
          \<and> snd (ft_show_bios x name) = Some ?R
          \<and> (fmap_find_by_name img (fmap_name k) = Some (i, ah)
               \<and> (2 ^ 32 \<le> unat (area_offset ah) + unat (area_size ah)
                   \<or> unat ilen < unat (area_offset ah) + unat (area_size ah))
              \<longrightarrow> map_option (\<lambda>b. map_option (\<lambda>t. t ! i) (fmap b)) (snd (ft_show_bios x name))
                   = Some (Some (ah\<lparr>area_offset := 0, area_size := 0\<rparr>)))
          \<and> (areas_in_range img ilen \<longrightarrow> snd (ft_show_bios x name) = Some img)"
    if h: "helpers_store_nothing x"
  proof -
    have "fst ?F = fold (limit_named ilen) bios_area_names img"
      unfolding fold_show_component_image [OF h] bios_area_names_def ..
    with res have bios: "snd (ft_show_bios x name) = Some ?R"
      by (simp add: fold_limit_named_image)
    have gbb: "snd (snd (ft_show_gbb x name data)) = Some img"
      using assms show_gbb_buf_image [OF h, of name img 0 ilen data]
      by (simp add: ft_show_gbb_def case_prod_beta)
    have zero: "map_option (\<lambda>b. map_option (\<lambda>t. t ! i) (fmap b)) (snd (ft_show_bios x name))
                = Some (Some (ah\<lparr>area_offset := 0, area_size := 0\<rparr>))"
      if f: "fmap_find_by_name img (fmap_name k) = Some (i, ah)"
        and out: "2 ^ 32 \<le> unat (area_offset ah) + unat (area_size ah)
                \<or> unat ilen < unat (area_offset ah) + unat (area_size ah)"
    proof -
      from f obtain ahs where t: "fmap img = Some ahs"
        and idx: "find_area_index ahs (fmap_name k) = Some i" and ah: "ah = ahs ! i"
        by (auto simp: fmap_find_by_name_def split: option.splits)
      from idx have i: "i < length ahs" by (simp add: find_area_index_Some)
      have "fmap_name k \<in> set bios_area_names"
        by (cases k) (simp_all add: bios_area_names_def)
      with idx i have "limited_table ilen bios_area_names ahs ! i
                         = fmap_limit_area (ahs ! i) ilen"
        by (auto simp: limited_table_nth)
      then show ?thesis
        using bios t ah fmap_limit_area_zero [OF out] by simp
    qed
    have same: "snd (ft_show_bios x name) = Some img" if "areas_in_range img ilen"
      using that bios
      by (cases "fmap img") (simp_all add: areas_in_range_def limited_table_in_range)
    show ?thesis using gbb bios zero same by blast
  qed
  show ?thesis using st_gbb st_bios quiet by blast
qed

lemma map_cut: "futil_open_and_map_file test_ext ''cut.bin'' = Some (image_cut, 40)"
  by code_simp

theorem ft_show_bios_buffer_counterexample:
  "futil_open_and_map_file test_ext ''cut.bin'' = Some (image_cut, 40)
   \<and> fmap image_cut
       = Some [\<lparr>area_offset = 0, area_size = 16, area_name = ''GBB''\<rparr>,
               \<lparr>area_offset = 16, area_size = 32, area_name = ''FW_MAIN_A''\<rparr>,
               \<lparr>area_offset = 48, area_size = 16, area_name = ''VBLOCK_A''\<rparr>]
   \<and> map_option fmap (snd (ft_show_bios test_ext ''cut.bin''))
       = Some (Some [\<lparr>area_offset = 0, area_size = 16, area_name = ''GBB''\<rparr>,
                     \<lparr>area_offset = 0, area_size = 0, area_name = ''FW_MAIN_A''\<rparr>,
                     \<lparr>area_offset = 0, area_size = 0, area_name = ''VBLOCK_A''\<rparr>])"
  by code_simp

lemma map_a: "futil_open_and_map_file test_ext ''a.bin'' = Some (image_a, 64)"
  by code_simp

lemma a_in_range: "areas_in_range image_a 64"
  by code_simp

lemma test_ext_stores_nothing: "helpers_store_nothing test_ext"
  by (simp add: helpers_store_nothing_def test_ext_def)

lemma cut_found:
  "fmap_find_by_name image_cut (fmap_name BIOS_FMAP_FW_MAIN_A)
     = Some (1, \<lparr>area_offset = 16, area_size = 32, area_name = ''FW_MAIN_A''\<rparr>)"
  by code_simp

theorem ft_show_bios_buffer_witness:
  "snd (snd (ft_show_gbb test_ext ''a.bin'' None)) = Some image_a
   \<and> snd (ft_show_bios test_ext ''a.bin'') = Some image_a
   \<and> unat (40 :: u32) < unat (16 :: u32) + unat (32 :: u32)
   \<and> map_option (\<lambda>b. map_option (\<lambda>t. t ! 1) (fmap b)) (snd (ft_show_bios test_ext ''cut.bin''))
       = Some (Some \<lparr>area_offset = 0, area_size = 0, area_name = ''FW_MAIN_A''\<rparr>)"
proof -
  let ?ah = "\<lparr>area_offset = 16, area_size = 32, area_name = ''FW_MAIN_A''\<rparr>"
  have a: "snd (snd (ft_show_gbb test_ext ''a.bin'' None)) = Some image_a
           \<and> snd (ft_show_bios test_ext ''a.bin'') = Some image_a"
    using ft_show_bios_buffer [OF map_a, of None] test_ext_stores_nothing a_in_range
    by blast
  have out: "2 ^ 32 \<le> unat (area_offset ?ah) + unat (area_size ?ah)
             \<or> unat (40 :: u32) < unat (area_offset ?ah) + unat (area_size ?ah)"
    by simp
  have "map_option (\<lambda>b. map_option (\<lambda>t. t ! 1) (fmap b))
          (snd (ft_show_bios test_ext ''cut.bin''))
        = Some (Some (?ah\<lparr>area_offset := 0, area_size := 0\<rparr>))"
    using ft_show_bios_buffer [OF map_cut, of None BIOS_FMAP_FW_MAIN_A 1 ?ah]
      test_ext_stores_nothing cut_found out
    by blast
  then show ?thesis using a by simp
qed

section \<open>Signing both slots\<close>

lemma check_vblock_frame:
  "metadata_hash (area (fst (snd (check_vblock x img fw_c vblock_c st))) k) = metadata_hash (area st k)"
  "is_valid (area (fst (snd (check_vblock x img fw_c vblock_c st))) k) = is_valid (area st k)"
  "k \<noteq> fw_c \<Longrightarrow> area (fst (snd (check_vblock x img fw_c vblock_c st))) k = area st k"
  by (auto simp: check_vblock_def Let_def split: prod.splits)

lemma prepare_slot_end_frame:
  "metadata_hash (area (prepare_slot_end so vblock_c kv st) k) = metadata_hash (area st k)"
  "k \<noteq> vblock_c \<Longrightarrow> area (prepare_slot_end so vblock_c kv st) k = area st k"
  by (auto simp: prepare_slot_end_def)

lemma fw_len_choice_frame:
  "metadata_hash (area (fst (fw_len_choice st fw_c ah)) k) = metadata_hash (area st k)"
  "is_valid (area (fst (fw_len_choice st fw_c ah)) k) = is_valid (area st k)"
  "k \<noteq> fw_c \<Longrightarrow> area (fst (fw_len_choice st fw_c ah)) k = area st k"
  by (auto simp: fw_len_choice_def)

lemma prepare_slot_unfold2:
  "prepare_slot x so img ilen fw_c vblock_c state =
     (case located img ilen (fmap_name fw_c) of
        None \<Rightarrow> (1, img, state, [ERROR (fmap_name fw_c @ '' area not found in FMAP'')])
      | Some ah \<Rightarrow>
         let img1 = limit_named ilen (fmap_name fw_c) img;
             st1 = set_area state fw_c (\<lambda>a. a\<lparr>buf := unat (area_offset ah), is_valid := 1\<rparr>)
         in if fw_size (area st1 fw_c) > unat (area_size ah)
            then (1, img1, st1, [ERROR (fmap_name fw_c @ '' size is incorrect.'')])
            else
              let ch = fw_len_choice st1 fw_c ah
              in case located img ilen (fmap_name vblock_c) of
                   None \<Rightarrow> (1, img1, fst ch,
                             snd ch @ [ERROR (fmap_name vblock_c @ '' area not found in FMAP'')])
                 | Some bh \<Rightarrow>
                    let img2 = limit_named ilen (fmap_name vblock_c) img1;
                        st3 = set_area (fst ch) vblock_c
                                (\<lambda>a. a\<lparr>buf := unat (area_offset bh), len := area_size bh\<rparr>);
                        cv = check_vblock x img2 fw_c vblock_c st3
                    in (0, img2, prepare_slot_end so vblock_c (fst cv) (fst (snd cv)),
                        snd ch @ snd (snd cv)))"
  by (simp add: prepare_slot_unfold Let_def case_prod_beta split: option.splits)

lemma prepare_slot_frame:
  assumes "prepare_slot x so img ilen fw_c vblock_c st = (r, img1, st1, d)"
  shows "metadata_hash (area st1 k) = metadata_hash (area st k)"
    and "k \<noteq> fw_c \<Longrightarrow> k \<noteq> vblock_c \<Longrightarrow> area st1 k = area st k"
    and "bytes img1 = bytes img"
    and "located img1 ilen m = located img ilen m"
    and "r = 0 \<or> r = 1"
    and "located img ilen (fmap_name fw_c) = None \<Longrightarrow> st1 = st \<and> r = 1"
    and "located img ilen (fmap_name fw_c) \<noteq> None \<Longrightarrow> is_valid (area st1 fw_c) = 1"
    and "r = 0 \<Longrightarrow> is_valid (area st1 fw_c) = 1 \<and> is_valid (area st1 vblock_c) = 1"
proof -
  show "located img ilen (fmap_name fw_c) = None \<Longrightarrow> st1 = st \<and> r = 1"
    using assms by (simp add: prepare_slot_unfold2)
  show "metadata_hash (area st1 k) = metadata_hash (area st k)"
    using assms
    by (auto simp: prepare_slot_unfold2 Let_def prepare_slot_end_frame check_vblock_frame
          fw_len_choice_frame split: option.splits if_splits)
  show "k \<noteq> fw_c \<Longrightarrow> k \<noteq> vblock_c \<Longrightarrow> area st1 k = area st k"
    using assms
    by (auto simp: prepare_slot_unfold2 Let_def prepare_slot_end_frame check_vblock_frame
          fw_len_choice_frame split: option.splits if_splits)
  show "bytes img1 = bytes img"
    using assms
    by (auto simp: prepare_slot_unfold2 Let_def split: option.splits if_splits)
  show "located img1 ilen m = located img ilen m"
    using assms
    by (auto simp: prepare_slot_unfold2 Let_def located_limit_named
          split: option.splits if_splits)
  show "r = 0 \<or> r = 1"
    using assms
    by (auto simp: prepare_slot_unfold2 Let_def split: option.splits if_splits)
  show "located img ilen (fmap_name fw_c) \<noteq> None \<Longrightarrow> is_valid (area st1 fw_c) = 1"
    using assms
    by (auto simp: prepare_slot_unfold2 Let_def prepare_slot_end_def check_vblock_frame
          fw_len_choice_frame split: option.splits if_splits)
  show "r = 0 \<Longrightarrow> is_valid (area st1 fw_c) = 1 \<and> is_valid (area st1 vblock_c) = 1"
    using assms
    by (auto simp: prepare_slot_unfold2 Let_def prepare_slot_end_def check_vblock_frame
          fw_len_choice_frame split: option.splits if_splits)
qed

lemma ft_sign_bios_via:
  "ft_sign_bios x so name =
     then_result (cbfs_prepared x name)
       (\<lambda>s2. case futil_open_and_map_file x name of
                None \<Rightarrow> Returns (1, None, [])
              | Some (img, ilen) \<Rightarrow>
                 let (ra, img_a, st_a, d_a) =
                       prepare_slot x so img ilen BIOS_FMAP_FW_MAIN_A BIOS_FMAP_VBLOCK_A s2
                 in if ra \<noteq> 0 then Returns (ra, Some img_a, d_a)
                    else
                      let (rb, img_b, st_b, d_b) =
                            prepare_slot x so img_a ilen BIOS_FMAP_FW_MAIN_B BIOS_FMAP_VBLOCK_B
                              st_a
                      in if rb \<noteq> 0 \<and> is_valid (area st_b BIOS_FMAP_FW_MAIN_B) \<noteq> 0
                         then Returns (rb, Some img_b, d_a @ d_b)
                         else
                           then_result
                             (check_slot_after_prepare BIOS_FMAP_FW_MAIN_A
                                (image_uses_cbfs_integration x name) st_b)
                             (\<lambda>_.
                           then_result
                             (check_slot_after_prepare BIOS_FMAP_FW_MAIN_B
                                (image_uses_cbfs_integration x name) st_b)
                             (\<lambda>_.
                           then_result (sign_bios_at_end x so img_b st_b)
                             (\<lambda>(r, img_s, d_s). Returns (r, Some img_s, d_a @ d_b @ d_s)))))"
proof -
  have assoc: "then_result (then_result m f) g = then_result m (\<lambda>v. then_result (f v) g)"
    for m :: "bios_state_s result" and f :: "bios_state_s \<Rightarrow> bios_state_s result"
      and g :: "bios_state_s \<Rightarrow> (int \<times> image option \<times> diag list) result"
    by (cases m) simp_all
  show ?thesis
    by (simp add: ft_sign_bios_def cbfs_prepared_def Let_def assoc)
qed

lemma cbfs_prepared_integration:
  assumes "image_uses_cbfs_integration x name"
  shows "cbfs_prepared x name =
     (let (rca, ha) = cbfstool_get_metadata_hash x name (fmap_name BIOS_FMAP_FW_MAIN_A)
                        (metadata_hash zero_area);
          (rcb, hb) = cbfstool_get_metadata_hash x name (fmap_name BIOS_FMAP_FW_MAIN_B)
                        (metadata_hash zero_area)
      in if rca \<noteq> VB2_SUCCESS \<or> rcb \<noteq> VB2_SUCCESS then Exits
         else Returns
                (set_area
                   (set_area zero_state BIOS_FMAP_FW_MAIN_A (\<lambda>a. a\<lparr>metadata_hash := ha\<rparr>))
                   BIOS_FMAP_FW_MAIN_B (\<lambda>a. a\<lparr>metadata_hash := hb\<rparr>)))"
  using assms
  by (simp add: cbfs_prepared_def image_check_and_prepare_cbfs_def zero_state_def
        split: prod.splits)


text \<open>
  C7. On an image that declares CBFS integration: when cbfstool finds no metadata hash in
  FW_MAIN_A or in FW_MAIN_B, \<^verbatim>\<open>ft_sign_bios\<close> ends in \<^verbatim>\<open>FATAL\<close>; and it never returns
  0 with slot A, or a slot B whose FW_MAIN_B is in the FMAP, left without a metadata
  hash.
\<close>

theorem ft_sign_bios_metadata_hash_fatal:
  assumes "image_uses_cbfs_integration x name"
  shows "(fst (cbfstool_get_metadata_hash x name (fmap_name BIOS_FMAP_FW_MAIN_A)
                 (metadata_hash zero_area)) \<noteq> VB2_SUCCESS
          \<or> fst (cbfstool_get_metadata_hash x name (fmap_name BIOS_FMAP_FW_MAIN_B)
                   (metadata_hash zero_area)) \<noteq> VB2_SUCCESS
          \<longrightarrow> ft_sign_bios x so name = Exits)
     \<and> (ft_sign_bios x so name = Returns (0, b, d) \<longrightarrow>
          algo (snd (cbfstool_get_metadata_hash x name (fmap_name BIOS_FMAP_FW_MAIN_A)
                       (metadata_hash zero_area))) \<noteq> VB2_HASH_INVALID
          \<and> (\<forall>img ilen. futil_open_and_map_file x name = Some (img, ilen)
                 \<and> fmap_find_by_name img (fmap_name BIOS_FMAP_FW_MAIN_B) \<noteq> None
               \<longrightarrow> algo (snd (cbfstool_get_metadata_hash x name
                                  (fmap_name BIOS_FMAP_FW_MAIN_B) (metadata_hash zero_area)))
                     \<noteq> VB2_HASH_INVALID))"
proof -
  obtain rca ha where ga: "cbfstool_get_metadata_hash x name (fmap_name BIOS_FMAP_FW_MAIN_A)
                        (metadata_hash zero_area) = (rca, ha)"
    by (cases "cbfstool_get_metadata_hash x name (fmap_name BIOS_FMAP_FW_MAIN_A)
                        (metadata_hash zero_area)")
  obtain rcb hb where gb: "cbfstool_get_metadata_hash x name (fmap_name BIOS_FMAP_FW_MAIN_B)
                        (metadata_hash zero_area) = (rcb, hb)"
    by (cases "cbfstool_get_metadata_hash x name (fmap_name BIOS_FMAP_FW_MAIN_B)
                        (metadata_hash zero_area)")
  define s2 where "s2 = set_area
                   (set_area zero_state BIOS_FMAP_FW_MAIN_A (\<lambda>a. a\<lparr>metadata_hash := ha\<rparr>))
                   BIOS_FMAP_FW_MAIN_B (\<lambda>a. a\<lparr>metadata_hash := hb\<rparr>)"
  have prep: "cbfs_prepared x name =
                (if rca \<noteq> VB2_SUCCESS \<or> rcb \<noteq> VB2_SUCCESS then Exits else Returns s2)"
    using ga gb by (simp add: cbfs_prepared_integration [OF assms] s2_def)
  have fatal: "rca \<noteq> VB2_SUCCESS \<or> rcb \<noteq> VB2_SUCCESS \<Longrightarrow> ft_sign_bios x so name = Exits"
    by (simp add: ft_sign_bios_via prep)
  have hs: "metadata_hash (area s2 BIOS_FMAP_FW_MAIN_A) = ha"
    "metadata_hash (area s2 BIOS_FMAP_FW_MAIN_B) = hb"
    by (simp_all add: s2_def)
  have ok: "algo ha \<noteq> VB2_HASH_INVALID
     \<and> (\<forall>img ilen. futil_open_and_map_file x name = Some (img, ilen)
                 \<and> fmap_find_by_name img (fmap_name BIOS_FMAP_FW_MAIN_B) \<noteq> None
               \<longrightarrow> algo hb \<noteq> VB2_HASH_INVALID)"
    if ret: "ft_sign_bios x so name = Returns (0, b, d)"
  proof -
    from ret fatal have rc: "\<not> (rca \<noteq> VB2_SUCCESS \<or> rcb \<noteq> VB2_SUCCESS)" by auto
    with ret obtain img ilen where m: "futil_open_and_map_file x name = Some (img, ilen)"
      by (cases "futil_open_and_map_file x name") (auto simp: ft_sign_bios_via prep)
    obtain ra img_a st_a d_a where pa:
      "prepare_slot x so img ilen BIOS_FMAP_FW_MAIN_A BIOS_FMAP_VBLOCK_A s2 = (ra, img_a, st_a, d_a)"
      by (cases "prepare_slot x so img ilen BIOS_FMAP_FW_MAIN_A BIOS_FMAP_VBLOCK_A s2") auto
    obtain rb img_b st_b d_b where pb:
      "prepare_slot x so img_a ilen BIOS_FMAP_FW_MAIN_B BIOS_FMAP_VBLOCK_B st_a = (rb, img_b, st_b, d_b)"
      by (cases "prepare_slot x so img_a ilen BIOS_FMAP_FW_MAIN_B BIOS_FMAP_VBLOCK_B st_a") auto
    from ret rc m pa have ra: "ra = 0"
      by (auto simp: ft_sign_bios_via prep split: if_splits)
    from ret rc m pa pb ra have nb: "\<not> (rb \<noteq> 0 \<and> is_valid (area st_b BIOS_FMAP_FW_MAIN_B) \<noteq> 0)"
      by (auto simp: ft_sign_bios_via prep split: if_splits)
    from ret rc m pa pb ra nb have
      ca: "check_slot_after_prepare BIOS_FMAP_FW_MAIN_A True st_b = Returns ()" and
      cb: "check_slot_after_prepare BIOS_FMAP_FW_MAIN_B True st_b = Returns ()"
      using assms
      by (auto simp: ft_sign_bios_via prep check_slot_after_prepare_def split: if_splits)
    have va: "is_valid (area st_a BIOS_FMAP_FW_MAIN_A) = 1"
      using prepare_slot_frame(8) [OF pa] ra by simp
    have "area st_b BIOS_FMAP_FW_MAIN_A = area st_a BIOS_FMAP_FW_MAIN_A"
      using prepare_slot_frame(2) [OF pb, of BIOS_FMAP_FW_MAIN_A] by simp
    with va have vb: "is_valid (area st_b BIOS_FMAP_FW_MAIN_A) = 1" by simp
    have ha': "metadata_hash (area st_b BIOS_FMAP_FW_MAIN_A) = ha"
      using prepare_slot_frame(1) [OF pb, of BIOS_FMAP_FW_MAIN_A]
        prepare_slot_frame(1) [OF pa, of BIOS_FMAP_FW_MAIN_A] hs by simp
    have hb': "metadata_hash (area st_b BIOS_FMAP_FW_MAIN_B) = hb"
      using prepare_slot_frame(1) [OF pb, of BIOS_FMAP_FW_MAIN_B]
        prepare_slot_frame(1) [OF pa, of BIOS_FMAP_FW_MAIN_B] hs by simp
    from ca vb ha' have a_ok: "algo ha \<noteq> VB2_HASH_INVALID"
      by (auto simp: check_slot_after_prepare_def split: if_splits)
    have b_ok: "algo hb \<noteq> VB2_HASH_INVALID"
      if f: "fmap_find_by_name img (fmap_name BIOS_FMAP_FW_MAIN_B) \<noteq> None"
    proof -
      from f have "located img ilen (fmap_name BIOS_FMAP_FW_MAIN_B) \<noteq> None"
        by (simp add: located_None)
      then have "located img_a ilen (fmap_name BIOS_FMAP_FW_MAIN_B) \<noteq> None"
        using prepare_slot_frame(4) [OF pa] by simp
      then have "is_valid (area st_b BIOS_FMAP_FW_MAIN_B) = 1"
        using prepare_slot_frame(7) [OF pb] by simp
      with cb hb' show ?thesis
        by (auto simp: check_slot_after_prepare_def split: if_splits)
    qed
    show ?thesis using a_ok b_ok m by auto
  qed
  show ?thesis using fatal ok ga gb by auto
qed

lemma cbfs_bin_integration: "image_uses_cbfs_integration test_ext ''cbfs.bin''"
  by code_simp

lemma cbfs_ok_bin_integration: "image_uses_cbfs_integration test_ext ''cbfs_ok.bin''"
  by code_simp

lemma cbfs_ok_bin_signed:
  "ft_sign_bios test_ext test_sign_option ''cbfs_ok.bin''
     = Returns (0, Some (image_fresh\<lparr>bytes := replicate 48 0 @ [2, 0, 1, 1, 0, 9]
                                                  @ replicate 10 0\<rparr>),
                [WARN ''VBLOCK_A keyblock is invalid.'',
                 ERROR ''FW_MAIN_B area not found in FMAP'',
                 INFO ''BIOS image does not have FW_MAIN_B. Signing only FW_MAIN_A''])"
  by code_simp

theorem ft_sign_bios_metadata_hash_fatal_witness:
  "fst (cbfstool_get_metadata_hash test_ext ''cbfs.bin'' (fmap_name BIOS_FMAP_FW_MAIN_A)
          (metadata_hash zero_area)) \<noteq> VB2_SUCCESS
   \<and> ft_sign_bios test_ext test_sign_option ''cbfs.bin'' = Exits
   \<and> ft_sign_bios test_ext test_sign_option ''cbfs_ok.bin''
       = Returns (0, Some (image_fresh\<lparr>bytes := replicate 48 0 @ [2, 0, 1, 1, 0, 9]
                                                    @ replicate 10 0\<rparr>),
                  [WARN ''VBLOCK_A keyblock is invalid.'',
                   ERROR ''FW_MAIN_B area not found in FMAP'',
                   INFO ''BIOS image does not have FW_MAIN_B. Signing only FW_MAIN_A''])
   \<and> algo (snd (cbfstool_get_metadata_hash test_ext ''cbfs_ok.bin''
                    (fmap_name BIOS_FMAP_FW_MAIN_A) (metadata_hash zero_area)))
       \<noteq> VB2_HASH_INVALID"
  using ft_sign_bios_metadata_hash_fatal [OF cbfs_bin_integration, of test_sign_option]
    ft_sign_bios_metadata_hash_fatal [OF cbfs_ok_bin_integration, of test_sign_option]
    cbfs_ok_bin_signed
  by (simp add: test_ext_def VB2_SUCCESS_def)






lemma no_hash_b_facts:
  "image_uses_cbfs_integration ext_no_hash_b ''cbfs.bin''"
  "futil_open_and_map_file ext_no_hash_b ''cbfs.bin'' = Some (image_fresh, 64)"
  "fmap_find_by_name image_fresh (fmap_name BIOS_FMAP_FW_MAIN_B) = None"
  "fmap_find_by_name image_fresh (fmap_name BIOS_FMAP_VBLOCK_B) = None"
  by code_simp+










section \<open>Generating a kernel image with an existing subkey header\<close>

lemma read_subkey_header_frame:
  assumes "read_subkey_header x img st = Inr (img7, st7) \<or> read_subkey_header x img st = Inl img7"
  shows "kernel_key_signature img7 = kernel_key_signature img
       \<and> kernel_signature img7 = kernel_signature img
       \<and> preamble_signature img7 = preamble_signature img
       \<and> kernel_data img7 = kernel_data img"
  using assms
  by (auto simp: read_subkey_header_def Let_def case_prod_beta split: if_splits)

text \<open>
  With \<^verbatim>\<open>--subkey_in\<close> no call computes a signature, whatever the header file holds, and
  the image keeps the kernel blob and the kernel signatures of a new image.
\<close>

lemma GenerateSignedImage_reuse_no_signature:
  assumes "subkey_in_file u \<noteq> []"
  shows "snd (snd (GenerateSignedImage x u)) = []
     \<and> (\<forall>img. image (fst (snd (GenerateSignedImage x u))) = Some img \<longrightarrow>
           kernel_signature img = kernel_signature (KernelImageNew x)
           \<and> preamble_signature img = preamble_signature (KernelImageNew x)
           \<and> kernel_data img = kernel_data (KernelImageNew x))"
proof (cases "BufferFromFile x (subkey_in_file u)")
  case None
  then show ?thesis using assms by (simp add: GenerateSignedImage_def)
next
  case (Some b)
  let ?img0 = "(KernelImageNew x)\<lparr>magic := KERNEL_MAGIC x\<rparr>"
  let ?st = "\<lparr>remaining_len = length b, remaining_buf = b, overrun = 0\<rparr>"
  show ?thesis
  proof (cases "read_subkey_header x ?img0 ?st")
    case (Inl img4)
    then show ?thesis
      using assms Some read_subkey_header_frame [of x ?img0 ?st img4]
      by (simp add: GenerateSignedImage_def)
  next
    case (Inr p)
    obtain img7 st7 where p: "p = (img7, st7)" by (cases p)
    then show ?thesis
      using assms Some Inr read_subkey_header_frame [of x ?img0 ?st img7 st7]
      by (simp add: GenerateSignedImage_def Let_def case_prod_beta)
  qed
qed

text \<open>
  C3, the code at a well-formed subkey header. Its checksum agrees, and
  \<^verbatim>\<open>GenerateSignedImage\<close> returns true right after reading the key signature: no kernel
  blob is built, no signature call is made and the image has no kernel signature. Without
  \<^verbatim>\<open>--subkey_in\<close> the same options give both signature calls.
\<close>

theorem GenerateSignedImage_reuse_skips_signing:
  "GenerateSignedImage test_kext reuse_utility
     = (True,
        reuse_utility\<lparr>image := Some
           \<lparr>magic = [67, 72, 82, 79, 77, 69, 79, 83], header_version = 1, header_len = 15,
            firmware_sign_algorithm = 0, kernel_sign_algorithm = 0, kernel_key_version = 1,
            kernel_sign_key = Some [1, 2, 3], header_checksum = [15, 1],
            kernel_key_signature = Some [7, 7], kernel_version = 0, padded_header_size = 0,
            kernel_len = 0, bootloader_offset = 0, bootloader_size = 0, kernel_data = None,
            preamble_signature = None, kernel_signature = None\<rparr>\<rparr>,
        [])
   \<and> snd (snd (GenerateSignedImage test_kext fresh_utility))
       = [Call_AddKernelKeySignature, Call_AddKernelSignature]"
  by code_simp

theorem GenerateSignedImage_reuse_skips_signing_witness:
  "subkey_in_file reuse_utility \<noteq> []
   \<and> fst (GenerateSignedImage test_kext reuse_utility)
   \<and> snd (snd (GenerateSignedImage test_kext reuse_utility)) = []
   \<and> map_option kernel_signature (image (fst (snd (GenerateSignedImage test_kext reuse_utility))))
       = Some None"
  using GenerateSignedImage_reuse_skips_signing
  by (simp add: reuse_utility_def)

text \<open>
  C8. With \<^verbatim>\<open>--subkey_in\<close>, when the header file was read and passed the checks of the
  algorithms and the header length, and the checksum computed from the header disagrees
  with the stored one, \<^verbatim>\<open>GenerateSignedImage\<close> returns false; no signature call was
  made, and the key signature and the kernel signatures of the image are those of a new
  image.
\<close>

theorem GenerateSignedImage_checksum_mismatch:
  assumes "subkey_in_file u \<noteq> []"
    and "BufferFromFile x (subkey_in_file u) = Some b"
    and "read_subkey_header x ((KernelImageNew x)\<lparr>magic := KERNEL_MAGIC x\<rparr>)
           \<lparr>remaining_len = length b, remaining_buf = b, overrun = 0\<rparr> = Inr (img7, st7)"
    and "take (FIELD_LEN_header_checksum x) (CalculateKernelHeaderChecksum x img7)
           \<noteq> take (FIELD_LEN_header_checksum x) (header_checksum img7)"
  shows "GenerateSignedImage x u = (False, u\<lparr>image := Some img7\<rparr>, [])
     \<and> kernel_key_signature img7 = kernel_key_signature (KernelImageNew x)
     \<and> kernel_signature img7 = kernel_signature (KernelImageNew x)
     \<and> preamble_signature img7 = preamble_signature (KernelImageNew x)"
  using assms
    read_subkey_header_frame [of x "(KernelImageNew x)\<lparr>magic := KERNEL_MAGIC x\<rparr>"
      "\<lparr>remaining_len = length b, remaining_buf = b, overrun = 0\<rparr>" img7 st7]
  by (simp add: GenerateSignedImage_def SafeMemcmp_def)

lemma damaged_facts:
  "BufferFromFile test_kext ''damaged.bin''
     = Some [1, 0, 15, 0, 0, 0, 0, 0, 1, 0, 1, 2, 3, 15, 0, 7, 7]"
  "read_subkey_header test_kext ((KernelImageNew test_kext)\<lparr>magic := KERNEL_MAGIC test_kext\<rparr>)
           \<lparr>remaining_len = length [1, 0, 15, 0, 0, 0, 0, 0, 1, 0, 1, 2, 3, 15, 0, 7, 7 :: u8],
            remaining_buf = [1, 0, 15, 0, 0, 0, 0, 0, 1, 0, 1, 2, 3, 15, 0, 7, 7],
            overrun = 0\<rparr>
     = Inr (\<lparr>magic = [67, 72, 82, 79, 77, 69, 79, 83], header_version = 1, header_len = 15,
            firmware_sign_algorithm = 0, kernel_sign_algorithm = 0, kernel_key_version = 1,
            kernel_sign_key = Some [1, 2, 3], header_checksum = [15, 0],
            kernel_key_signature = None, kernel_version = 0, padded_header_size = 0,
            kernel_len = 0, bootloader_offset = 0, bootloader_size = 0, kernel_data = None,
            preamble_signature = None, kernel_signature = None\<rparr>,
            \<lparr>remaining_len = 2, remaining_buf = [7, 7], overrun = 0\<rparr>)"
  by code_simp+

theorem GenerateSignedImage_checksum_mismatch_witness:
  "GenerateSignedImage test_kext (reuse_utility\<lparr>subkey_in_file := ''damaged.bin''\<rparr>)
     = (False,
        reuse_utility\<lparr>subkey_in_file := ''damaged.bin'', image := Some
           \<lparr>magic = [67, 72, 82, 79, 77, 69, 79, 83], header_version = 1, header_len = 15,
            firmware_sign_algorithm = 0, kernel_sign_algorithm = 0, kernel_key_version = 1,
            kernel_sign_key = Some [1, 2, 3], header_checksum = [15, 0],
            kernel_key_signature = None, kernel_version = 0, padded_header_size = 0,
            kernel_len = 0, bootloader_offset = 0, bootloader_size = 0, kernel_data = None,
            preamble_signature = None, kernel_signature = None\<rparr>\<rparr>,
        [])"
  using GenerateSignedImage_checksum_mismatch
    [of "reuse_utility\<lparr>subkey_in_file := ''damaged.bin''\<rparr>" test_kext, OF _ _ damaged_facts(2)]
    damaged_facts(1)
  by (simp add: reuse_utility_def test_kext_def)

end
